theory Spec2Isabelle
  imports Main "HOL-Library.AList" "HOL-Library.Sublist" "HOL-Library.Product_Lexorder"
begin

section \<open>The orchestrator of 04-ai_agent_orchestrator.py\<close>

text \<open>
  The class \<^verbatim>\<open>AIAgentOrchestrator\<close> keeps a dictionary of agents and a list of
  tasks. Every method is modelled as a function that takes the orchestrator state and
  returns its result together with the state after the call. Python strings are lists of
  characters, one \<^typ>\<open>char\<close> per code point (code points below 256); dictionaries
  whose length or order is read are association lists with distinct keys, written with
  \<^const>\<open>AList.update\<close>, which replaces the value of a present key in place and appends
  a new key at the end, as a Python dictionary does. A reading of the wall clock
  (\<^verbatim>\<open>datetime.now()\<close>) is an argument of the function that reads it.
\<close>

subsection \<open>Enumerations and data classes\<close>

datatype RealityLayer = PHYSICAL | EMOTIONAL | MENTAL | ASTRAL | ETHERIC | CELESTIAL | DIVINE

fun layer_value :: "RealityLayer \<Rightarrow> int" where
  "layer_value PHYSICAL = 1"
| "layer_value EMOTIONAL = 2"
| "layer_value MENTAL = 3"
| "layer_value ASTRAL = 4"
| "layer_value ETHERIC = 5"
| "layer_value CELESTIAL = 6"
| "layer_value DIVINE = 7"

datatype PowerMachine = MONEY | DATA | NARRATIVE | NETWORK | LEGAL | TECHNOLOGY | BIOLOGICAL
  | TEMPORAL | SPATIAL | ENERGY | ATTENTION | INFLUENCE | LEGACY | CONSCIOUSNESS

record AgentExecutionContext =
  target_volume :: string
  target_section :: string
  current_business_focus :: string
  current_reality_layer :: RealityLayer
  temporal_constraints :: string
  energy_resources :: string
  priority :: string

record AgentExecutionOutput =
  technical_specifications :: string
  implementation_steps :: "string list"
  success_metrics :: "(string \<times> string) list"
  cross_dimensional_impact :: string
  completion_status :: string

subsection \<open>Clock readings\<close>

text \<open>
  A naive \<^verbatim>\<open>datetime\<close>: its seven fields. Python compares two of them field by
  field, the year first. \<^verbatim>\<open>strftime('%Y%m%d_%H%M%S')\<close> prints the year on four
  digits and month, day, hour, minute and second on two digits each; the microsecond is
  not printed.
\<close>

record datetime =
  year :: nat
  month :: nat
  day :: nat
  hour :: nat
  minute :: nat
  second :: nat
  microsecond :: nat

definition valid_datetime :: "datetime \<Rightarrow> bool" where
  "valid_datetime d \<longleftrightarrow>
     1000 \<le> year d \<and> year d \<le> 9999 \<and> 1 \<le> month d \<and> month d \<le> 12 \<and>
     1 \<le> day d \<and> day d \<le> 31 \<and> hour d < 24 \<and> minute d < 60 \<and> second d < 60 \<and>
     microsecond d < 1000000"

definition dt_fields :: "datetime \<Rightarrow> nat \<times> nat \<times> nat \<times> nat \<times> nat \<times> nat \<times> nat" where
  "dt_fields d = (year d, month d, day d, hour d, minute d, second d, microsecond d)"

definition dt_le :: "datetime \<Rightarrow> datetime \<Rightarrow> bool" where
  "dt_le a b \<longleftrightarrow> dt_fields a \<le> dt_fields b"

definition to_second :: "datetime \<Rightarrow> nat \<times> nat \<times> nat \<times> nat \<times> nat \<times> nat" where
  "to_second d = (year d, month d, day d, hour d, minute d, second d)"

definition digit_char :: "nat \<Rightarrow> char" where
  "digit_char n = char_of (48 + n mod 10)"

definition pad2 :: "nat \<Rightarrow> string" where
  "pad2 n = [digit_char (n div 10), digit_char n]"

definition pad4 :: "nat \<Rightarrow> string" where
  "pad4 n = [digit_char (n div 1000), digit_char (n div 100), digit_char (n div 10), digit_char n]"

definition strftime_Ymd_HMS :: "datetime \<Rightarrow> string" where
  "strftime_Ymd_HMS d =
     pad4 (year d) @ pad2 (month d) @ pad2 (day d) @ ''_'' @
     pad2 (hour d) @ pad2 (minute d) @ pad2 (second d)"

subsection \<open>String operations\<close>

text \<open>\<^verbatim>\<open>str.lower()\<close> on code points below 256: the letters A to Z and the
  capital letters of Latin-1 (192 to 222 without the multiplication sign 215) move up by 32.\<close>

definition lower_char :: "char \<Rightarrow> char" where
  "lower_char c =
     (let n = (of_char c :: nat)
      in if (65 \<le> n \<and> n \<le> 90) \<or> (192 \<le> n \<and> n \<le> 222 \<and> n \<noteq> 215)
         then char_of (n + 32) else c)"

definition lower :: "string \<Rightarrow> string" where
  "lower s = map lower_char s"

text \<open>\<^verbatim>\<open>sub in s\<close>: \<open>sub\<close> occurs in \<open>s\<close> as a contiguous run.\<close>

fun str_contains :: "string \<Rightarrow> string \<Rightarrow> bool" where
  "str_contains sub [] = (sub = [])"
| "str_contains sub (c # cs) = (prefix sub (c # cs) \<or> str_contains sub cs)"

subsection \<open>Plans and results\<close>

record plan =
  focus :: string
  implementation :: "string list"
  p_memu_integration :: string
  p_success_metrics :: "(string \<times> string) list"

record execution_results =
  plan_focus :: string
  r_implementation_steps :: "string list"
  r_memu_integration :: string
  r_success_metrics :: "(string \<times> string) list"
  execution_status :: string
  r_cross_dimensional_impact :: string
  business_value :: string
  temporal_optimization :: string
  energy_efficiency :: string

definition generate_generic_plan :: "string \<Rightarrow> AgentExecutionContext \<Rightarrow> plan" where
  "generate_generic_plan section_label ctx =
     \<lparr> focus = ''Generic Implementation for '' @ section_label,
       implementation = [''Analyze requirements'', ''Design implementation'',
                         ''Execute implementation'', ''Validate results''],
       p_memu_integration = ''All systems'',
       p_success_metrics = [(''completion_rate'', ''100%''), (''quality_score'', ''>90%''),
                            (''integration_score'', ''>85%'')] \<rparr>"

definition foundational_plans :: "(string \<times> plan) list" where
  "foundational_plans =
     [(''1.0'',
       \<lparr> focus = ''7-Layer Reality Architecture'',
         implementation = [''Map business to reality layers'', ''Implement layer-specific systems'',
                           ''Create cross-layer integration'', ''Validate layer functionality''],
         p_memu_integration = ''Enterprise core platforms'',
         p_success_metrics = [(''layer_coverage'', ''100%''), (''integration_score'', ''>90%''),
                              (''functionality_preservation'', ''100%'')] \<rparr>),
      (''2.0'',
       \<lparr> focus = ''14 Machines of Power'',
         implementation = [''Identify primary machines for business'',
                           ''Implement machine-specific systems'', ''Create machine coordination'',
                           ''Optimize machine performance''],
         p_memu_integration = ''All enterprise systems'',
         p_success_metrics = [(''machine_coverage'', ''100%''), (''coordination_score'', ''>90%''),
                              (''performance_improvement'', ''>50%'')] \<rparr>),
      (''3.0'',
       \<lparr> focus = ''82-Business Neural Mapping'',
         implementation = [''Map business to neural pathways'', ''Implement neural-specific systems'',
                           ''Create pathway optimization'', ''Validate neural functionality''],
         p_memu_integration = ''Business intelligence systems'',
         p_success_metrics = [(''neural_coverage'', ''100%''), (''pathway_optimization'', ''>90%''),
                              (''business_alignment'', ''>95%'')] \<rparr>)]"

definition generate_foundational_plan :: "string \<Rightarrow> AgentExecutionContext \<Rightarrow> plan" where
  "generate_foundational_plan section_label ctx =
     (case map_of foundational_plans section_label of
        Some p \<Rightarrow> p
      | None \<Rightarrow> generate_generic_plan section_label ctx)"

definition technical_plans :: "(string \<times> plan) list" where
  "technical_plans =
     [(''4.0'',
       \<lparr> focus = ''AI Agent Orchestration System'',
         implementation = [''Implement multi-agent architecture'', ''Set up MCP integration'',
                           ''Create URL-based API architecture'', ''Build iOS app ecosystem'',
                           ''Implement real-time monitoring''],
         p_memu_integration = ''AI agent ecosystem, MCP hub, API management'',
         p_success_metrics = [(''agent_coordination'', ''>95%''), (''api_performance'', ''<200ms''),
                              (''monitoring_coverage'', ''100%'')] \<rparr>),
      (''5.0'',
       \<lparr> focus = ''Data & Knowledge Architecture'',
         implementation = [''Set up unified data lakehouse'', ''Implement knowledge graph engine'',
                           ''Create vector database integration'', ''Build ETL/ELT pipelines'',
                           ''Implement real-time streaming''],
         p_memu_integration = ''Database systems, intelligence systems'',
         p_success_metrics = [(''data_coverage'', ''100%''), (''query_performance'', ''<100ms''),
                              (''real_time_latency'', ''<50ms'')] \<rparr>),
      (''6.0'',
       \<lparr> focus = ''Deployment & Infrastructure'',
         implementation = [''Set up Kubernetes orchestration'', ''Implement Terraform IaC'',
                           ''Create CI/CD pipelines'', ''Build multi-cloud strategy'',
                           ''Implement security framework''],
         p_memu_integration = ''DevOps systems, security systems'',
         p_success_metrics = [(''deployment_speed'', ''<5min''), (''uptime'', ''>99.9%''),
                              (''security_score'', ''>95%'')] \<rparr>)]"

definition generate_technical_plan :: "string \<Rightarrow> AgentExecutionContext \<Rightarrow> plan" where
  "generate_technical_plan section_label ctx =
     (case map_of technical_plans section_label of
        Some p \<Rightarrow> p
      | None \<Rightarrow> generate_generic_plan section_label ctx)"

definition generate_temporal_plan :: "string \<Rightarrow> AgentExecutionContext \<Rightarrow> plan" where
  "generate_temporal_plan section_label ctx =
     \<lparr> focus = ''Temporal Optimization'',
       implementation = [''Analyze temporal constraints'', ''Optimize timing for business'',
                         ''Implement temporal algorithms'', ''Create temporal monitoring''],
       p_memu_integration = ''Scheduling systems, temporal systems'',
       p_success_metrics = [(''timing_accuracy'', ''>95%''), (''temporal_efficiency'', ''>90%''),
                            (''success_probability'', ''>85%'')] \<rparr>"

definition generate_energetic_plan :: "string \<Rightarrow> AgentExecutionContext \<Rightarrow> plan" where
  "generate_energetic_plan section_label ctx =
     \<lparr> focus = ''Energy Flow Optimization'',
       implementation = [''Map energy flows'', ''Optimize energy circulation'',
                         ''Implement energy monitoring'', ''Create energy management''],
       p_memu_integration = ''Energy systems, flow systems'',
       p_success_metrics = [(''energy_efficiency'', ''>90%''), (''flow_optimization'', ''>95%''),
                            (''energy_utilization'', ''>85%'')] \<rparr>"

definition generate_consciousness_plan :: "string \<Rightarrow> AgentExecutionContext \<Rightarrow> plan" where
  "generate_consciousness_plan section_label ctx =
     \<lparr> focus = ''Consciousness Development'',
       implementation = [''Implement AI consciousness protocols'',
                         ''Create multi-agent collective intelligence'',
                         ''Build ethical governance frameworks'',
                         ''Develop transcendent AI architectures''],
       p_memu_integration = ''AI consciousness, transcendent systems'',
       p_success_metrics = [(''consciousness_level'', ''>90%''), (''ethical_compliance'', ''100%''),
                            (''transcendent_capability'', ''>85%'')] \<rparr>"

definition generate_monitoring_plan :: "string \<Rightarrow> AgentExecutionContext \<Rightarrow> plan" where
  "generate_monitoring_plan section_label ctx =
     \<lparr> focus = ''Monitoring & Optimization'',
       implementation = [''Implement multi-dimensional metrics'',
                         ''Create adaptive learning systems'', ''Build performance tracking'',
                         ''Develop optimization algorithms''],
       p_memu_integration = ''Monitoring systems, optimization systems'',
       p_success_metrics = [(''monitoring_coverage'', ''100%''),
                            (''optimization_efficiency'', ''>90%''), (''learning_rate'', ''>85%'')] \<rparr>"

text \<open>
  The class body defines \<^verbatim>\<open>_generate_execution_plan\<close> twice. A Python class keeps
  the last binding of a name, so the attribute every call
  \<^verbatim>\<open>self._generate_execution_plan(...)\<close> reaches is the second definition (line 359,
  the plan for execution playbooks), which reads neither of its arguments; they are
  of any type here, since \<^verbatim>\<open>execute_task\<close> passes it a context and the expected
  outputs where its signature names a section and a context.
\<close>

definition generate_execution_plan :: "'a \<Rightarrow> 'b \<Rightarrow> plan" where
  "generate_execution_plan section_label ctx =
     \<lparr> focus = ''Execution Optimization'',
       implementation = [''Implement daily protocols'', ''Launch quick-win businesses'',
                         ''Set up core infrastructure'', ''Develop neural pathways''],
       p_memu_integration = ''All enterprise systems'',
       p_success_metrics = [(''execution_speed'', ''>90%''), (''success_rate'', ''>85%''),
                            (''infrastructure_coverage'', ''100%'')] \<rparr>"

text \<open>
  The first definition of the name (line 173), which selects a plan by volume and
  section. The second definition replaces it when the class is created, so no call
  reaches it; it is kept here under a name of its own to compare it with the binding
  that runs.
\<close>

definition generate_execution_plan_line173 ::
  "AgentExecutionContext \<Rightarrow> AgentExecutionOutput \<Rightarrow> plan" where
  "generate_execution_plan_line173 ctx expected =
     (let volume = target_volume ctx; section_label = target_section ctx
      in if volume = ''Volume_1'' then generate_foundational_plan section_label ctx
         else if volume = ''Volume_2'' then generate_technical_plan section_label ctx
         else if volume = ''Volume_3'' then generate_temporal_plan section_label ctx
         else if volume = ''Volume_4'' then generate_energetic_plan section_label ctx
         else if volume = ''Volume_5'' then generate_consciousness_plan section_label ctx
         else if volume = ''Volume_6'' then generate_execution_plan section_label ctx
         else if volume = ''Volume_7'' then generate_monitoring_plan section_label ctx
         else generate_generic_plan section_label ctx)"

subsection \<open>The estimators\<close>

definition calculate_cross_dimensional_impact :: "AgentExecutionContext \<Rightarrow> string" where
  "calculate_cross_dimensional_impact ctx =
     (let reality_layer = layer_value (current_reality_layer ctx);
          business_focus = current_business_focus ctx;
          impact_score = reality_layer * 10 + int (length business_focus)
      in if impact_score > 50 then ''High - Significant cross-dimensional optimization achieved''
         else if impact_score > 30 then ''Medium - Moderate cross-dimensional impact''
         else ''Low - Limited cross-dimensional impact'')"

definition calculate_business_value :: "AgentExecutionContext \<Rightarrow> string" where
  "calculate_business_value ctx =
     (let business_focus = lower (current_business_focus ctx)
      in if str_contains ''credit repair'' business_focus
         then ''$50K-100K monthly revenue potential''
         else if str_contains ''real estate'' business_focus
         then ''$100K-500K monthly revenue potential''
         else if str_contains ''ai automation'' business_focus
         then ''$25K-75K monthly revenue potential''
         else ''$10K-50K monthly revenue potential'')"

definition calculate_temporal_optimization :: "AgentExecutionContext \<Rightarrow> string" where
  "calculate_temporal_optimization ctx =
     (let constraints = lower (temporal_constraints ctx)
      in if str_contains ''30-day'' constraints then ''High - Rapid implementation timeline''
         else if str_contains ''90-day'' constraints
         then ''Medium - Standard implementation timeline''
         else ''Low - Extended implementation timeline'')"

definition calculate_energy_efficiency :: "AgentExecutionContext \<Rightarrow> string" where
  "calculate_energy_efficiency ctx =
     (let resources = lower (energy_resources ctx)
      in if str_contains ''high'' resources then ''High - Maximum energy utilization''
         else if str_contains ''medium'' resources then ''Medium - Moderate energy utilization''
         else ''Low - Minimal energy utilization'')"

definition execute_plan :: "plan \<Rightarrow> AgentExecutionContext \<Rightarrow> execution_results" where
  "execute_plan p ctx =
     \<lparr> plan_focus = focus p,
       r_implementation_steps = implementation p,
       r_memu_integration = p_memu_integration p,
       r_success_metrics = p_success_metrics p,
       execution_status = ''Completed'',
       r_cross_dimensional_impact = calculate_cross_dimensional_impact ctx,
       business_value = calculate_business_value ctx,
       temporal_optimization = calculate_temporal_optimization ctx,
       energy_efficiency = calculate_energy_efficiency ctx \<rparr>"

subsection \<open>Agents, tasks and the orchestrator state\<close>

text \<open>
  An agent and a task are dictionaries with fixed keys in the source. A task is created
  without the keys \<^verbatim>\<open>results\<close> and \<^verbatim>\<open>completed_at\<close>; \<^verbatim>\<open>execute_task\<close>
  adds them, so both are optional fields here and \<open>None\<close> stands for the absent key.
  Status values are the strings the source writes.
\<close>

record agent =
  capabilities :: "string list"
  reality_layers :: "RealityLayer list"
  power_machines :: "PowerMachine list"
  agent_status :: string
  current_task :: "string option"

record task =
  task_id :: string
  task_context :: AgentExecutionContext
  task_expected_outputs :: AgentExecutionOutput
  task_status :: string
  created_at :: datetime
  assigned_agent :: "string option"
  progress :: int
  task_results :: "execution_results option"
  completed_at :: "datetime option"

record orchestrator =
  agents :: "(string \<times> agent) list"
  execution_queue :: "task list"
  results :: "(string \<times> execution_results) list"
  memu_integration :: "(string \<times> string) list"

definition load_memu_integration :: "(string \<times> string) list" where
  "load_memu_integration =
     [(''enterprise_platform'', ''$200B''), (''billionaire_consciousness'', ''$350B''),
      (''worldwidebro_integration'', ''$80B''), (''genix_bank_financial'', ''$40B''),
      (''ai_agent_ecosystem'', ''$20B''), (''mcp_integration_hub'', ''$15B''),
      (''autonomous_systems'', ''$50B''), (''security_system'', ''$20B''),
      (''devops_system'', ''$15B''), (''integration_system'', ''$30B''),
      (''frontend_system'', ''$20B''), (''backend_services'', ''$25B''),
      (''api_management'', ''$18B''), (''database_systems'', ''$12B''),
      (''business_intelligence'', ''$25B''), (''monitoring_system'', ''$8B''),
      (''reporting_system'', ''$7B'')]"

definition init :: orchestrator where
  "init = \<lparr> agents = [], execution_queue = [], results = [],
            memu_integration = load_memu_integration \<rparr>"

datatype exn = KeyError string

datatype 'a outcome = Returned 'a | Raised exn

text \<open>What \<^verbatim>\<open>execute_task\<close> returns: the dictionary with the single key
  \<^verbatim>\<open>error\<close>, or the results dictionary.\<close>

datatype reply = Error_reply string | Results_reply execution_results

text \<open>\<^verbatim>\<open>next((t for t in self.execution_queue if t["id"] == task_id), None)\<close>: the first
  task of the queue with that identifier. The assignments that follow write to that
  dictionary, which is the first such element of the list.\<close>

definition find_task :: "string \<Rightarrow> task list \<Rightarrow> task option" where
  "find_task tid q = List.find (\<lambda>t. task_id t = tid) q"

fun update_first :: "('a \<Rightarrow> bool) \<Rightarrow> ('a \<Rightarrow> 'a) \<Rightarrow> 'a list \<Rightarrow> 'a list" where
  "update_first P f [] = []"
| "update_first P f (x # xs) = (if P x then f x # xs else x # update_first P f xs)"

definition update_task :: "string \<Rightarrow> (task \<Rightarrow> task) \<Rightarrow> task list \<Rightarrow> task list" where
  "update_task tid f q = update_first (\<lambda>t. task_id t = tid) f q"

subsection \<open>The operations\<close>

definition register_agent ::
  "orchestrator \<Rightarrow> string \<Rightarrow> string list \<Rightarrow> RealityLayer list \<Rightarrow> PowerMachine list
     \<Rightarrow> orchestrator" where
  "register_agent s agent_name caps layers machines =
     s\<lparr>agents := AList.update agent_name
          \<lparr> capabilities = caps, reality_layers = layers, power_machines = machines,
            agent_status = ''Available'', current_task = None \<rparr> (agents s)\<rparr>"

text \<open>\<^verbatim>\<open>create_execution_task\<close> reads the clock twice: \<open>now_id\<close> is the reading
  printed into the identifier, \<open>now_created\<close> the one stored as \<^verbatim>\<open>created_at\<close>.\<close>

definition create_execution_task ::
  "orchestrator \<Rightarrow> AgentExecutionContext \<Rightarrow> AgentExecutionOutput \<Rightarrow> datetime \<Rightarrow> datetime
     \<Rightarrow> string \<times> orchestrator" where
  "create_execution_task s ctx expected now_id now_created =
     (let tid = ''task_'' @ strftime_Ymd_HMS now_id;
          t = \<lparr> task_id = tid, task_context = ctx, task_expected_outputs = expected,
                task_status = ''Queued'', created_at = now_created, assigned_agent = None,
                progress = 0, task_results = None, completed_at = None \<rparr>
      in (tid, s\<lparr>execution_queue := execution_queue s @ [t]\<rparr>))"

definition assign_agent_to_task :: "orchestrator \<Rightarrow> string \<Rightarrow> string \<Rightarrow> bool \<times> orchestrator" where
  "assign_agent_to_task s tid agent_name =
     (case map_of (agents s) agent_name of
        None \<Rightarrow> (False, s)
      | Some a \<Rightarrow>
          (case find_task tid (execution_queue s) of
             None \<Rightarrow> (False, s)
           | Some t \<Rightarrow>
               if agent_status a \<noteq> ''Available'' then (False, s)
               else (True,
                     s\<lparr>execution_queue :=
                         update_task tid
                           (\<lambda>t. t\<lparr>assigned_agent := Some agent_name,
                                  task_status := ''In Progress''\<rparr>)
                           (execution_queue s),
                       agents :=
                         AList.update agent_name
                           (a\<lparr>agent_status := ''Busy'', current_task := Some tid\<rparr>)
                           (agents s)\<rparr>)))"

text \<open>
  \<^verbatim>\<open>execute_task\<close>. \<^verbatim>\<open>if not agent_name\<close> holds for \<^verbatim>\<open>None\<close> and for the empty
  string. The task is updated before the agent is looked up, so the \<^verbatim>\<open>KeyError\<close> of
  \<^verbatim>\<open>self.agents[agent_name]\<close> leaves the task updated.
\<close>

definition execute_task :: "orchestrator \<Rightarrow> string \<Rightarrow> datetime \<Rightarrow> reply outcome \<times> orchestrator" where
  "execute_task s tid now =
     (case find_task tid (execution_queue s) of
        None \<Rightarrow> (Returned (Error_reply ''Task not found''), s)
      | Some t \<Rightarrow>
          (case assigned_agent t of
             None \<Rightarrow> (Returned (Error_reply ''No agent assigned''), s)
           | Some agent_name \<Rightarrow>
               if agent_name = [] then (Returned (Error_reply ''No agent assigned''), s)
               else
                 let ctx = task_context t;
                     expected_outputs = task_expected_outputs t;
                     execution_plan = generate_execution_plan ctx expected_outputs;
                     res = execute_plan execution_plan ctx;
                     s1 = s\<lparr>execution_queue :=
                             update_task tid
                               (\<lambda>t. t\<lparr>task_status := ''Completed'', task_results := Some res,
                                      completed_at := Some now\<rparr>)
                               (execution_queue s)\<rparr>
                 in (case map_of (agents s1) agent_name of
                       None \<Rightarrow> (Raised (KeyError agent_name), s1)
                     | Some a \<Rightarrow>
                         (Returned (Results_reply res),
                          s1\<lparr>agents :=
                               AList.update agent_name
                                 (a\<lparr>agent_status := ''Available'', current_task := None\<rparr>)
                                 (agents s1)\<rparr>))))"

text \<open>
  \<^verbatim>\<open>get_execution_status\<close>: the six counts of the snapshot. Its seventh entry,
  \<^verbatim>\<open>memu_integration_value\<close>, is a floating-point sum over the table loaded at
  construction and does not depend on agents or tasks; it is left out.
\<close>

record status_report =
  total_agents :: nat
  available_agents :: nat
  busy_agents :: nat
  queued_tasks :: nat
  in_progress_tasks :: nat
  completed_tasks :: nat

definition get_execution_status :: "orchestrator \<Rightarrow> status_report" where
  "get_execution_status s =
     \<lparr> total_agents = length (agents s),
       available_agents = length (filter (\<lambda>a. agent_status a = ''Available'') (map snd (agents s))),
       busy_agents = length (filter (\<lambda>a. agent_status a = ''Busy'') (map snd (agents s))),
       queued_tasks = length (filter (\<lambda>t. task_status t = ''Queued'') (execution_queue s)),
       in_progress_tasks =
         length (filter (\<lambda>t. task_status t = ''In Progress'') (execution_queue s)),
       completed_tasks = length (filter (\<lambda>t. task_status t = ''Completed'') (execution_queue s)) \<rparr>"

subsection \<open>Runs\<close>

text \<open>A call of one of the four mutating methods, with the clock readings it consumes.
  A run applies a list of calls in order; the state after a call is kept whatever the
  call returned.\<close>

datatype call =
    Register string "string list" "RealityLayer list" "PowerMachine list"
  | Enqueue AgentExecutionContext AgentExecutionOutput datetime datetime
  | Assign string string
  | Execute string datetime

fun step :: "call \<Rightarrow> orchestrator \<Rightarrow> orchestrator" where
  "step (Register n caps layers machines) s = register_agent s n caps layers machines"
| "step (Enqueue ctx expected now_id now_created) s =
     snd (create_execution_task s ctx expected now_id now_created)"
| "step (Assign tid n) s = snd (assign_agent_to_task s tid n)"
| "step (Execute tid now) s = snd (execute_task s tid now)"

definition run :: "call list \<Rightarrow> orchestrator \<Rightarrow> orchestrator" where
  "run cs s = fold step cs s"

fun clock_readings :: "call \<Rightarrow> datetime list" where
  "clock_readings (Enqueue ctx expected now_id now_created) = [now_id, now_created]"
| "clock_readings (Execute tid now) = [now]"
| "clock_readings _ = []"

subsection \<open>Predicates of the properties\<close>

fun is_enqueue :: "call \<Rightarrow> bool" where
  "is_enqueue (Enqueue ctx expected now_id now_created) = True"
| "is_enqueue _ = False"

text \<open>The readings of the clock along a list of calls, in the order they are taken.\<close>

definition readings :: "call list \<Rightarrow> datetime list" where
  "readings cs = concat (map clock_readings cs)"

text \<open>What a task in state \<^verbatim>\<open>Completed\<close> and a task in state \<^verbatim>\<open>Queued\<close>
  must carry.\<close>

definition completion_invariant :: "task \<Rightarrow> bool" where
  "completion_invariant t \<longleftrightarrow>
     (task_status t = ''Completed'' \<longrightarrow>
        task_results t \<noteq> None \<and>
        (case completed_at t of None \<Rightarrow> False | Some c \<Rightarrow> dt_le (created_at t) c)) \<and>
     (task_status t = ''Queued'' \<longrightarrow> task_results t = None \<and> completed_at t = None)"

text \<open>The part of it that does not compare clock readings.\<close>

definition completion_fields :: "task \<Rightarrow> bool" where
  "completion_fields t \<longleftrightarrow>
     (task_status t = ''Completed'' \<longrightarrow> task_results t \<noteq> None \<and> completed_at t \<noteq> None) \<and>
     (task_status t = ''Queued'' \<longrightarrow> task_results t = None \<and> completed_at t = None)"

text \<open>The calls that can make agent \<open>a\<close> available again: registering \<open>a\<close> anew, and
  executing a task whose assigned agent is \<open>a\<close>.\<close>

fun releases :: "string \<Rightarrow> orchestrator \<Rightarrow> call \<Rightarrow> bool" where
  "releases a s (Register n caps layers machines) = (n = a)"
| "releases a s (Execute tid now) =
     (case find_task tid (execution_queue s) of
        None \<Rightarrow> False
      | Some t \<Rightarrow> assigned_agent t = Some a)"
| "releases a s _ = False"

fun no_release :: "string \<Rightarrow> call list \<Rightarrow> orchestrator \<Rightarrow> bool" where
  "no_release a [] s = True"
| "no_release a (c # cs) s = (\<not> releases a s c \<and> no_release a cs (step c s))"

text \<open>A label of the three-tier set: it starts with \<^verbatim>\<open>High\<close>, \<^verbatim>\<open>Medium\<close> or
  \<^verbatim>\<open>Low\<close>, followed by the justification.\<close>

definition tier_label :: "string \<Rightarrow> bool" where
  "tier_label s \<longleftrightarrow> prefix ''High - '' s \<or> prefix ''Medium - '' s \<or> prefix ''Low - '' s"

text \<open>A sequence of \<^verbatim>\<open>create_execution_task\<close> calls, each with its arguments and its two
  clock readings; the identifiers returned, in order, and the final state.\<close>

fun enqueue_all ::
  "(AgentExecutionContext \<times> AgentExecutionOutput \<times> datetime \<times> datetime) list \<Rightarrow> orchestrator
     \<Rightarrow> string list \<times> orchestrator" where
  "enqueue_all [] s = ([], s)"
| "enqueue_all ((ctx, expected, now_id, now_created) # rest) s =
     (let (tid, s1) = create_execution_task s ctx expected now_id now_created;
          (tids, s2) = enqueue_all rest s1
      in (tid # tids, s2))"

text \<open>The result \<^verbatim>\<open>execute_task\<close> computes for a task: it is a function of the task's
  context alone.\<close>

definition result_of :: "task \<Rightarrow> execution_results" where
  "result_of t =
     execute_plan (generate_execution_plan (task_context t) (task_expected_outputs t))
       (task_context t)"

text \<open>How a task hangs together with the agents: an assigned agent is a registered one, a
  \<^verbatim>\<open>Completed\<close> task has an assigned agent with a non-empty name, and it carries the
  result computed from its own context.\<close>

definition task_linked :: "(string \<times> agent) list \<Rightarrow> task \<Rightarrow> bool" where
  "task_linked ags t \<longleftrightarrow>
     (case assigned_agent t of
        None \<Rightarrow> task_status t \<noteq> ''Completed''
      | Some a \<Rightarrow> map_of ags a \<noteq> None \<and> (task_status t = ''Completed'' \<longrightarrow> a \<noteq> [])) \<and>
     (task_status t = ''Completed'' \<longrightarrow> task_results t = Some (result_of t))"

subsection \<open>Example values\<close>

definition example_context :: AgentExecutionContext where
  "example_context =
     \<lparr> target_volume = ''Volume_1'', target_section = ''1.0'',
       current_business_focus = ''Credit Repair Service'', current_reality_layer = MENTAL,
       temporal_constraints = ''30-day implementation'',
       energy_resources = ''High technical resources available'', priority = ''Medium'' \<rparr>"

definition example_outputs :: AgentExecutionOutput where
  "example_outputs =
     \<lparr> technical_specifications = ''Complete API specification with monitoring endpoints'',
       implementation_steps = [''Design API endpoints'', ''Deploy and test''],
       success_metrics = [(''api_performance'', ''<200ms''), (''uptime'', ''>99.9%'')],
       cross_dimensional_impact = ''High - Significant cross-dimensional optimization achieved'',
       completion_status = ''Pending'' \<rparr>"

definition clock_a :: datetime where
  "clock_a = \<lparr> year = 2026, month = 11, day = 4, hour = 9, minute = 5, second = 7,
               microsecond = 120 \<rparr>"

definition clock_b :: datetime where
  "clock_b = \<lparr> year = 2026, month = 11, day = 4, hour = 9, minute = 5, second = 7,
               microsecond = 950000 \<rparr>"

definition clock_c :: datetime where
  "clock_c = \<lparr> year = 2026, month = 11, day = 4, hour = 9, minute = 5, second = 8,
               microsecond = 31 \<rparr>"

definition clock_d :: datetime where
  "clock_d = \<lparr> year = 2026, month = 11, day = 4, hour = 9, minute = 6, second = 0,
               microsecond = 0 \<rparr>"

definition example_task_id :: string where
  "example_task_id = ''task_20261104_090507''"

definition st_registered :: orchestrator where
  "st_registered =
     register_agent (register_agent init ''A1'' [''build''] [MENTAL] [DATA])
       ''A2'' [''plan''] [ASTRAL] [MONEY]"

definition st_queued :: orchestrator where
  "st_queued =
     snd (create_execution_task st_registered example_context example_outputs clock_a clock_a)"

definition st_assigned :: orchestrator where
  "st_assigned = snd (assign_agent_to_task st_queued example_task_id ''A1'')"

definition st_completed :: orchestrator where
  "st_completed = snd (execute_task st_assigned example_task_id clock_c)"

definition example_calls :: "call list" where
  "example_calls =
     [Register ''A1'' [''build''] [MENTAL] [DATA],
      Enqueue example_context example_outputs clock_a clock_b,
      Assign example_task_id ''A1'',
      Execute example_task_id clock_c,
      Enqueue example_context example_outputs clock_c clock_d]"

definition more_calls :: "call list" where
  "more_calls =
     [Assign example_task_id ''A2'',
      Enqueue example_context example_outputs clock_c clock_d,
      Execute ''missing-task'' clock_d,
      Assign ''task_20261104_090508'' ''A1'']"

definition example_completed_task :: task where
  "example_completed_task =
     \<lparr> task_id = example_task_id, task_context = example_context,
       task_expected_outputs = example_outputs, task_status = ''Completed'',
       created_at = clock_b, assigned_agent = Some ''A1'', progress = 0,
       task_results = Some (execute_plan
         (generate_execution_plan example_context example_outputs) example_context),
       completed_at = Some clock_c \<rparr>"

definition plain_context :: AgentExecutionContext where
  "plain_context =
     \<lparr> target_volume = ''Volume_9'', target_section = ''7.7'',
       current_business_focus = ''Bakery'', current_reality_layer = PHYSICAL,
       temporal_constraints = ''next year'', energy_resources = ''two people'',
       priority = ''Medium'' \<rparr>"

text \<open>A run in which the clock is set back between the creation of a task (read at
  \<open>clock_d\<close>) and its execution (read at \<open>clock_a\<close>).\<close>

definition back_calls :: "call list" where
  "back_calls =
     [Register ''A1'' [''build''] [MENTAL] [DATA],
      Enqueue example_context example_outputs clock_d clock_d,
      Assign ''task_20261104_090600'' ''A1'',
      Execute ''task_20261104_090600'' clock_a]"

section \<open>Properties\<close>

subsection \<open>Evaluating the examples\<close>

lemma digit_char_nth: "digit_char n = ''0123456789'' ! (n mod 10)"
proof -
  have "n mod 10 < 10" by simp
  then have "n mod 10 = 0 \<or> n mod 10 = 1 \<or> n mod 10 = 2 \<or> n mod 10 = 3 \<or> n mod 10 = 4 \<or>
      n mod 10 = 5 \<or> n mod 10 = 6 \<or> n mod 10 = 7 \<or> n mod 10 = 8 \<or> n mod 10 = 9"
    by arith
  then show ?thesis
    by (elim disjE) (simp_all add: digit_char_def char_of_def bit_0)
qed

lemmas ex_defs = example_calls_def more_calls_def back_calls_def st_queued_def st_registered_def
  st_assigned_def st_completed_def init_def example_task_id_def
  clock_a_def clock_b_def clock_c_def clock_d_def
  register_agent_def create_execution_task_def assign_agent_to_task_def execute_task_def
  find_task_def update_task_def strftime_Ymd_HMS_def pad2_def pad4_def digit_char_nth Let_def

subsection \<open>Looking up and updating the first task with an identifier\<close>

lemma find_update_first:
  "(\<And>x. P x \<Longrightarrow> P (f x)) \<Longrightarrow> List.find P (update_first P f xs) = map_option f (List.find P xs)"
  by (induction xs) auto

lemma find_task_update_task_same:
  assumes "\<And>t. task_id (f t) = task_id t"
  shows "find_task tid (update_task tid f q) = map_option f (find_task tid q)"
  unfolding find_task_def update_task_def
  by (rule find_update_first) (simp add: assms)

lemma length_update_first [simp]: "length (update_first P f xs) = length xs"
  by (induction xs) auto

lemma length_update_task [simp]: "length (update_task tid f q) = length q"
  by (simp add: update_task_def)

lemma list_all_update_first:
  "list_all Q xs \<Longrightarrow> (\<And>x. x \<in> set xs \<Longrightarrow> P x \<Longrightarrow> Q x \<Longrightarrow> Q (f x)) \<Longrightarrow> list_all Q (update_first P f xs)"
  by (induction xs) auto

lemma list_all_update_task:
  "list_all Q q \<Longrightarrow> (\<And>t. t \<in> set q \<Longrightarrow> task_id t = tid \<Longrightarrow> Q t \<Longrightarrow> Q (f t)) \<Longrightarrow> list_all Q (update_task tid f q)"
  unfolding update_task_def by (rule list_all_update_first)

lemma find_task_in_set: "find_task tid q = Some t \<Longrightarrow> t \<in> set q \<and> task_id t = tid"
  unfolding find_task_def by (induction q) (auto split: if_splits)

lemma map_of_agents_update:
  "map_of (AList.update n a al) n' = (if n' = n then Some a else map_of al n')"
  by (simp add: update_conv')

subsection \<open>Assignment\<close>



subsection \<open>Execution\<close>

text \<open>
  C6. \<^verbatim>\<open>execute_task\<close> on an identifier no task of the queue has returns the
  dictionary with error \<^verbatim>\<open>Task not found\<close>; on a task whose \<^verbatim>\<open>assigned_agent\<close>
  is \<^verbatim>\<open>None\<close> it returns the dictionary with error \<^verbatim>\<open>No agent assigned\<close>. Both
  are returned values, not raised exceptions, and the state is the one it was given.
\<close>

theorem execute_task_errors:
  "(find_task tid (execution_queue s) = None \<longrightarrow>
      execute_task s tid now = (Returned (Error_reply ''Task not found''), s)) \<and>
   (\<forall>t. find_task tid (execution_queue s) = Some t \<and> assigned_agent t = None \<longrightarrow>
      execute_task s tid now = (Returned (Error_reply ''No agent assigned''), s))"
  by (simp add: execute_task_def)

theorem execute_task_errors_witness:
  "find_task ''missing-task'' (execution_queue st_queued) = None \<and>
   execute_task st_queued ''missing-task'' clock_c =
     (Returned (Error_reply ''Task not found''), st_queued) \<and>
   (\<exists>t. find_task example_task_id (execution_queue st_queued) = Some t \<and>
        assigned_agent t = None) \<and>
   execute_task st_queued example_task_id clock_c =
     (Returned (Error_reply ''No agent assigned''), st_queued)"
proof -
  have h1: "find_task ''missing-task'' (execution_queue st_queued) = None"
    by (simp add: ex_defs)
  have "map_option assigned_agent (find_task example_task_id (execution_queue st_queued)) =
      Some None"
    by (simp add: ex_defs)
  then have h2: "\<exists>t. find_task example_task_id (execution_queue st_queued) = Some t \<and>
        assigned_agent t = None"
    by auto
  show ?thesis
    using h1 h2 execute_task_errors [of "''missing-task''" st_queued clock_c]
      execute_task_errors [of example_task_id st_queued clock_c]
    by blast
qed

text \<open>
  C8. From any state: register agent \<open>A\<close>, create task \<open>T\<close>, assign \<open>T\<close> to \<open>A\<close>
  with success, execute \<open>T\<close> with a results dictionary returned. Then \<open>A\<close> is
  \<^verbatim>\<open>Available\<close> with no current task, as it was right after registration.
\<close>

theorem round_trip_availability:
  assumes reg: "s1 = register_agent s A caps layers machines"
    and enq: "create_execution_task s1 ctx expected now_id now_created = (T, s2)"
    and asg: "assign_agent_to_task s2 T A = (True, s3)"
    and exe: "execute_task s3 T now = (Returned (Results_reply r), s4)"
  shows "\<exists>a1 a4. map_of (agents s1) A = Some a1 \<and> map_of (agents s4) A = Some a4 \<and>
           agent_status a4 = ''Available'' \<and> current_task a4 = None \<and>
           agent_status a4 = agent_status a1 \<and> current_task a4 = current_task a1"
proof -
  have a1: "map_of (agents s1) A = Some \<lparr> capabilities = caps, reality_layers = layers,
      power_machines = machines, agent_status = ''Available'', current_task = None \<rparr>"
    using reg by (simp add: register_agent_def map_of_agents_update)
  from asg obtain t where t: "find_task T (execution_queue s3) = Some t" "assigned_agent t = Some A"
    by (auto simp: assign_agent_to_task_def find_task_update_task_same
             split: option.splits if_splits)
  from exe t have "\<exists>a. map_of (agents s4) A =
      Some (a\<lparr>agent_status := ''Available'', current_task := None\<rparr>)"
    by (auto simp: execute_task_def Let_def map_of_agents_update split: option.splits if_splits)
  then show ?thesis using a1 by auto
qed

theorem round_trip_availability_witness:
  "create_execution_task st_registered example_context example_outputs clock_a clock_a =
     (example_task_id, st_queued) \<and>
   assign_agent_to_task st_queued example_task_id ''A2'' =
     (True, snd (assign_agent_to_task st_queued example_task_id ''A2'')) \<and>
   execute_task (snd (assign_agent_to_task st_queued example_task_id ''A2''))
       example_task_id clock_c =
     (Returned (Results_reply (result_of \<lparr> task_id = example_task_id,
         task_context = example_context, task_expected_outputs = example_outputs,
         task_status = ''Queued'', created_at = clock_a, assigned_agent = None,
         progress = 0, task_results = None, completed_at = None \<rparr>)),
      snd (execute_task (snd (assign_agent_to_task st_queued example_task_id ''A2''))
            example_task_id clock_c)) \<and>
   (\<exists>a. map_of (agents (snd (execute_task
            (snd (assign_agent_to_task st_queued example_task_id ''A2''))
            example_task_id clock_c))) ''A2'' = Some a \<and>
        agent_status a = ''Available'' \<and> current_task a = None)"
proof -
  have reg: "st_registered =
      register_agent (register_agent init ''A1'' [''build''] [MENTAL] [DATA])
        ''A2'' [''plan''] [ASTRAL] [MONEY]"
    by (simp add: st_registered_def)
  have "fst (create_execution_task st_registered example_context example_outputs
      clock_a clock_a) = example_task_id"
    by (simp add: ex_defs)
  then have enq: "create_execution_task st_registered example_context example_outputs
      clock_a clock_a = (example_task_id, st_queued)"
    by (simp add: st_queued_def prod_eq_iff)
  have "fst (assign_agent_to_task st_queued example_task_id ''A2'')"
    by (simp add: ex_defs)
  then have asg: "assign_agent_to_task st_queued example_task_id ''A2'' =
     (True, snd (assign_agent_to_task st_queued example_task_id ''A2''))"
    by (simp add: prod_eq_iff)
  have "fst (execute_task (snd (assign_agent_to_task st_queued example_task_id ''A2''))
          example_task_id clock_c) =
        Returned (Results_reply (result_of \<lparr> task_id = example_task_id,
         task_context = example_context, task_expected_outputs = example_outputs,
         task_status = ''Queued'', created_at = clock_a, assigned_agent = None,
         progress = 0, task_results = None, completed_at = None \<rparr>))"
    by (simp add: ex_defs result_of_def)
  then have exe: "execute_task (snd (assign_agent_to_task st_queued example_task_id ''A2''))
          example_task_id clock_c =
        (Returned (Results_reply (result_of \<lparr> task_id = example_task_id,
         task_context = example_context, task_expected_outputs = example_outputs,
         task_status = ''Queued'', created_at = clock_a, assigned_agent = None,
         progress = 0, task_results = None, completed_at = None \<rparr>)),
         snd (execute_task (snd (assign_agent_to_task st_queued example_task_id ''A2''))
               example_task_id clock_c))"
    by (simp add: prod_eq_iff)
  show ?thesis
    using enq asg exe round_trip_availability [OF reg enq asg exe]
    by auto
qed

subsection \<open>Status values and the status snapshot\<close>

lemma list_all_snd_update:
  "list_all Q (map snd al) \<Longrightarrow> Q v \<Longrightarrow> list_all Q (map snd (AList.update k v al))"
  by (induction al) auto

lemma agent_status_step:
  assumes "list_all (\<lambda>a. agent_status a = ''Available'' \<or> agent_status a = ''Busy'') (map snd (agents s))"
  shows "list_all (\<lambda>a. agent_status a = ''Available'' \<or> agent_status a = ''Busy'') (map snd (agents (step c s)))"
proof (cases c)
  case (Register n caps layers machines)
  then show ?thesis using assms by (simp add: register_agent_def list_all_snd_update)
next
  case (Enqueue ctx expected n1 n2)
  then show ?thesis using assms by (simp add: create_execution_task_def Let_def)
next
  case (Assign tid n)
  then show ?thesis using assms
    by (auto simp: assign_agent_to_task_def list_all_snd_update split: option.splits)
next
  case (Execute tid now)
  then show ?thesis using assms
    by (auto simp: execute_task_def Let_def list_all_snd_update split: option.splits)
qed

lemma task_status_step:
  assumes "list_all (\<lambda>t. task_status t = ''Queued'' \<or> task_status t = ''In Progress'' \<or> task_status t = ''Completed'') (execution_queue s)"
  shows "list_all (\<lambda>t. task_status t = ''Queued'' \<or> task_status t = ''In Progress'' \<or> task_status t = ''Completed'') (execution_queue (step c s))"
proof (cases c)
  case (Register n caps layers machines)
  then show ?thesis using assms by (simp add: register_agent_def)
next
  case (Enqueue ctx expected n1 n2)
  then show ?thesis using assms by (simp add: create_execution_task_def Let_def)
next
  case (Assign tid n)
  then show ?thesis using assms
    by (auto simp: assign_agent_to_task_def intro!: list_all_update_task split: option.splits)
next
  case (Execute tid now)
  then show ?thesis using assms
    by (auto simp: execute_task_def Let_def intro!: list_all_update_task split: option.splits)
qed

lemma queue_length_step:
  "length (execution_queue (step c s)) = length (execution_queue s) + (if is_enqueue c then 1 else 0)"
  by (cases c)
     (auto simp: register_agent_def create_execution_task_def assign_agent_to_task_def
        execute_task_def Let_def split: option.splits)

lemma run_Nil [simp]: "run [] s = s"
  by (simp add: run_def)

lemma run_Cons [simp]: "run (c # cs) s = run cs (step c s)"
  by (simp add: run_def)

lemma agent_status_run:
  "list_all (\<lambda>a. agent_status a = ''Available'' \<or> agent_status a = ''Busy'') (map snd (agents s)) \<Longrightarrow>
   list_all (\<lambda>a. agent_status a = ''Available'' \<or> agent_status a = ''Busy'') (map snd (agents (run cs s)))"
  by (induction cs arbitrary: s) (simp_all add: agent_status_step)

lemma task_status_run:
  "list_all (\<lambda>t. task_status t = ''Queued'' \<or> task_status t = ''In Progress'' \<or> task_status t = ''Completed'') (execution_queue s) \<Longrightarrow>
   list_all (\<lambda>t. task_status t = ''Queued'' \<or> task_status t = ''In Progress'' \<or> task_status t = ''Completed'') (execution_queue (run cs s))"
  by (induction cs arbitrary: s) (simp_all add: task_status_step)

lemma queue_length_run:
  "length (execution_queue (run cs s)) = length (execution_queue s) + length (filter is_enqueue cs)"
  by (induction cs arbitrary: s) (simp_all add: queue_length_step)

lemma count_two:
  "list_all (\<lambda>x. P x \<or> Q x) xs \<Longrightarrow> (\<And>x. \<not> (P x \<and> Q x)) \<Longrightarrow>
   length (filter P xs) + length (filter Q xs) = length xs"
  by (induction xs) auto

lemma count_three:
  "list_all (\<lambda>x. P x \<or> Q x \<or> R x) xs \<Longrightarrow> (\<And>x. \<not> (P x \<and> Q x) \<and> \<not> (P x \<and> R x) \<and> \<not> (Q x \<and> R x)) \<Longrightarrow>
   length (filter P xs) + length (filter Q xs) + length (filter R xs) = length xs"
  by (induction xs) auto

text \<open>
  C10. In every state reached from the initial one by a list of calls, every agent's
  status is \<^verbatim>\<open>Available\<close> or \<^verbatim>\<open>Busy\<close> and every task's status is
  \<^verbatim>\<open>Queued\<close>, \<^verbatim>\<open>In Progress\<close> or \<^verbatim>\<open>Completed\<close>. So in the snapshot the total
  of agents is the sum of the available and the busy ones, and the three task counts add
  up to the number of \<^verbatim>\<open>create_execution_task\<close> calls made.
\<close>

theorem status_snapshot_partition:
  "list_all (\<lambda>a. agent_status a = ''Available'' \<or> agent_status a = ''Busy'')
     (map snd (agents (run cs init))) \<and>
   list_all (\<lambda>t. task_status t = ''Queued'' \<or> task_status t = ''In Progress'' \<or>
                task_status t = ''Completed'')
     (execution_queue (run cs init)) \<and>
   total_agents (get_execution_status (run cs init)) =
     available_agents (get_execution_status (run cs init)) +
     busy_agents (get_execution_status (run cs init)) \<and>
   queued_tasks (get_execution_status (run cs init)) +
     in_progress_tasks (get_execution_status (run cs init)) +
     completed_tasks (get_execution_status (run cs init)) = length (filter is_enqueue cs)"
proof -
  let ?s = "run cs init"
  have a: "list_all (\<lambda>a. agent_status a = ''Available'' \<or> agent_status a = ''Busy'')
     (map snd (agents ?s))"
    by (rule agent_status_run) (simp add: init_def)
  have t: "list_all (\<lambda>t. task_status t = ''Queued'' \<or> task_status t = ''In Progress'' \<or>
                task_status t = ''Completed'') (execution_queue ?s)"
    by (rule task_status_run) (simp add: init_def)
  have n: "length (execution_queue ?s) = length (filter is_enqueue cs)"
    by (simp add: queue_length_run init_def)
  have ca: "length (filter (\<lambda>a. agent_status a = ''Available'') (map snd (agents ?s))) +
      length (filter (\<lambda>a. agent_status a = ''Busy'') (map snd (agents ?s))) =
      length (map snd (agents ?s))"
    by (rule count_two [OF a]) auto
  have ct: "length (filter (\<lambda>t. task_status t = ''Queued'') (execution_queue ?s)) +
      length (filter (\<lambda>t. task_status t = ''In Progress'') (execution_queue ?s)) +
      length (filter (\<lambda>t. task_status t = ''Completed'') (execution_queue ?s)) =
      length (execution_queue ?s)"
    by (rule count_three [OF t]) auto
  show ?thesis
    using a t n ca ct by (simp add: get_execution_status_def)
qed

subsection \<open>Completion invariant\<close>

lemma completion_step:
  assumes inv: "list_all completion_invariant (execution_queue s)"
    and bound: "list_all (\<lambda>t. \<forall>d\<in>set (clock_readings c). dt_le (created_at t) d)
                  (execution_queue s)"
  shows "list_all completion_invariant (execution_queue (step c s))"
proof (cases c)
  case (Register n caps layers machines)
  then show ?thesis using inv by (simp add: register_agent_def)
next
  case (Enqueue ctx expected n1 n2)
  then show ?thesis using inv
    by (simp add: create_execution_task_def Let_def completion_invariant_def)
next
  case (Assign tid n)
  have "list_all completion_invariant
     (update_task tid (\<lambda>t. t\<lparr>assigned_agent := Some n, task_status := ''In Progress''\<rparr>)
        (execution_queue s))"
    by (rule list_all_update_task [OF inv]) (simp add: completion_invariant_def)
  then show ?thesis using Assign inv
    by (auto simp: assign_agent_to_task_def split: option.splits)
next
  case (Execute tid now)
  from inv bound have both: "list_all (\<lambda>t. completion_invariant t \<and> dt_le (created_at t) now)
      (execution_queue s)"
    using Execute by (simp add: list_all_iff)
  have "list_all (\<lambda>t. completion_invariant t \<and> dt_le (created_at t) now)
     (update_task tid (\<lambda>t. t\<lparr>task_status := ''Completed'', task_results := Some r,
                              completed_at := Some now\<rparr>) (execution_queue s))" for r
    by (rule list_all_update_task [OF both]) (simp add: completion_invariant_def)
  then have upd: "list_all completion_invariant
     (update_task tid (\<lambda>t. t\<lparr>task_status := ''Completed'', task_results := Some r,
                              completed_at := Some now\<rparr>) (execution_queue s))" for r
    by (simp add: list_all_iff)
  show ?thesis using Execute inv upd
    by (auto simp: execute_task_def Let_def split: option.splits)
qed

lemma created_bound_step:
  assumes old: "list_all (\<lambda>t. \<forall>d\<in>D. dt_le (created_at t) d) (execution_queue s)"
    and new: "\<forall>x\<in>set (clock_readings c). \<forall>d\<in>D. dt_le x d"
  shows "list_all (\<lambda>t. \<forall>d\<in>D. dt_le (created_at t) d) (execution_queue (step c s))"
proof (cases c)
  case (Register n caps layers machines)
  then show ?thesis using old by (simp add: register_agent_def)
next
  case (Enqueue ctx expected n1 n2)
  then show ?thesis using old new
    by (simp add: create_execution_task_def Let_def)
next
  case (Assign tid n)
  have "list_all (\<lambda>t. \<forall>d\<in>D. dt_le (created_at t) d)
     (update_task tid (\<lambda>t. t\<lparr>assigned_agent := Some n, task_status := ''In Progress''\<rparr>)
        (execution_queue s))"
    by (rule list_all_update_task [OF old]) simp
  then show ?thesis using Assign old
    by (auto simp: assign_agent_to_task_def split: option.splits)
next
  case (Execute tid now)
  have "list_all (\<lambda>t. \<forall>d\<in>D. dt_le (created_at t) d)
     (update_task tid (\<lambda>t. t\<lparr>task_status := ''Completed'', task_results := Some r,
                              completed_at := Some now\<rparr>) (execution_queue s))" for r
    by (rule list_all_update_task [OF old]) simp
  then show ?thesis using Execute old
    by (auto simp: execute_task_def Let_def split: option.splits)
qed

lemma completion_run:
  "list_all completion_invariant (execution_queue s) \<Longrightarrow>
   list_all (\<lambda>t. \<forall>d\<in>set (readings cs). dt_le (created_at t) d) (execution_queue s) \<Longrightarrow>
   sorted_wrt dt_le (readings cs) \<Longrightarrow>
   list_all completion_invariant (execution_queue (run cs s))"
proof (induction cs arbitrary: s)
  case Nil
  then show ?case by simp
next
  case (Cons c cs)
  have rd: "readings (c # cs) = clock_readings c @ readings cs"
    by (simp add: readings_def)
  have inv': "list_all completion_invariant (execution_queue (step c s))"
    using Cons.prems(1,2) by (intro completion_step) (auto simp: rd list_all_iff)
  have old: "list_all (\<lambda>t. \<forall>d\<in>set (readings cs). dt_le (created_at t) d) (execution_queue s)"
    using Cons.prems(2) by (auto simp: rd list_all_iff)
  have new: "\<forall>x\<in>set (clock_readings c). \<forall>d\<in>set (readings cs). dt_le x d"
    using Cons.prems(3) by (simp add: rd sorted_wrt_append)
  have bound': "list_all (\<lambda>t. \<forall>d\<in>set (readings cs). dt_le (created_at t) d)
      (execution_queue (step c s))"
    by (rule created_bound_step [OF old new])
  have "sorted_wrt dt_le (readings cs)"
    using Cons.prems(3) by (simp add: rd sorted_wrt_append)
  with Cons.IH [OF inv' bound'] show ?case by simp
qed

lemma completion_fields_step:
  assumes inv: "list_all completion_fields (execution_queue s)"
  shows "list_all completion_fields (execution_queue (step c s))"
proof (cases c)
  case (Register n caps layers machines)
  then show ?thesis using inv by (simp add: register_agent_def)
next
  case (Enqueue ctx expected n1 n2)
  then show ?thesis using inv
    by (simp add: create_execution_task_def Let_def completion_fields_def)
next
  case (Assign tid n)
  have "list_all completion_fields
     (update_task tid (\<lambda>t. t\<lparr>assigned_agent := Some n, task_status := ''In Progress''\<rparr>)
        (execution_queue s))"
    by (rule list_all_update_task [OF inv]) (simp add: completion_fields_def)
  then show ?thesis using Assign inv
    by (auto simp: assign_agent_to_task_def split: option.splits)
next
  case (Execute tid now)
  have upd: "list_all completion_fields
     (update_task tid (\<lambda>t. t\<lparr>task_status := ''Completed'', task_results := Some r,
                              completed_at := Some now\<rparr>) (execution_queue s))" for r
    by (rule list_all_update_task [OF inv]) (simp add: completion_fields_def)
  show ?thesis using Execute inv upd
    by (auto simp: execute_task_def Let_def split: option.splits)
qed

lemma completion_fields_run:
  "list_all completion_fields (execution_queue s) \<Longrightarrow>
   list_all completion_fields (execution_queue (run cs s))"
  by (induction cs arbitrary: s) (simp_all add: completion_fields_step)

text \<open>
  C7, as the code has it. In the state any list of calls reaches from the initial one,
  and so in the state after each of its calls, every \<^verbatim>\<open>Completed\<close> task has a result
  and a completion time, and every \<^verbatim>\<open>Queued\<close> task has neither. The two times of a
  task are readings of the wall clock, which the code does not compare: the completion
  time is not before the creation time when the clock readings, in the order they are
  taken, never go back.
\<close>

theorem completion_invariant_reachable:
  "list_all completion_fields (execution_queue (run cs init)) \<and>
   (sorted_wrt dt_le (readings cs) \<longrightarrow>
      list_all completion_invariant (execution_queue (run cs init)))"
proof -
  have a: "list_all completion_fields (execution_queue (run cs init))"
    by (rule completion_fields_run) (simp add: init_def)
  have b: "list_all completion_invariant (execution_queue (run cs init))"
    if "sorted_wrt dt_le (readings cs)"
    by (rule completion_run [OF _ _ that]) (simp_all add: init_def)
  from a b show ?thesis by blast
qed

theorem completion_invariant_reachable_witness:
  "sorted_wrt dt_le (readings example_calls) \<and>
   list_all completion_invariant (execution_queue (run example_calls init)) \<and>
   list_all completion_fields (execution_queue (run example_calls init)) \<and>
   map task_status (execution_queue (run example_calls init)) = [''Completed'', ''Queued''] \<and>
   list_all completion_fields (execution_queue (run back_calls init)) \<and>
   map task_status (execution_queue (run back_calls init)) = [''Completed'']"
proof -
  have h: "sorted_wrt dt_le (readings example_calls)"
    by (simp add: ex_defs readings_def dt_le_def dt_fields_def)
  have st: "map task_status (execution_queue (run example_calls init)) =
      [''Completed'', ''Queued'']"
    by (simp add: ex_defs)
  have sb: "map task_status (execution_queue (run back_calls init)) = [''Completed'']"
    by (simp add: ex_defs)
  show ?thesis
    using h st sb completion_invariant_reachable [of example_calls]
      completion_invariant_reachable [of back_calls]
    by blast
qed

text \<open>
  C7 as stated fails: the task of \<open>back_calls\<close> is created at \<open>clock_d\<close> (09:06:00)
  and executed at the earlier reading \<open>clock_a\<close> (09:05:07); it is \<^verbatim>\<open>Completed\<close>
  with a completion time before its creation time.
\<close>

theorem completion_invariant_counterexample:
  "map task_status (execution_queue (run back_calls init)) = [''Completed''] \<and>
   map created_at (execution_queue (run back_calls init)) = [clock_d] \<and>
   map completed_at (execution_queue (run back_calls init)) = [Some clock_a] \<and>
   \<not> dt_le clock_d clock_a \<and>
   \<not> list_all completion_invariant (execution_queue (run back_calls init))"
proof -
  have st: "map task_status (execution_queue (run back_calls init)) = [''Completed'']"
    by (simp add: ex_defs)
  have cr: "map created_at (execution_queue (run back_calls init)) = [clock_d]"
    by (simp add: ex_defs)
  have co: "map completed_at (execution_queue (run back_calls init)) = [Some clock_a]"
    by (simp add: ex_defs)
  have lt: "\<not> dt_le clock_d clock_a"
    by (simp add: clock_a_def clock_d_def dt_le_def dt_fields_def)
  from st cr co obtain t where q: "execution_queue (run back_calls init) = [t]"
    and t: "task_status t = ''Completed''" "created_at t = clock_d"
      "completed_at t = Some clock_a"
    by (cases "execution_queue (run back_calls init)") auto
  have "\<not> completion_invariant t"
    using t lt by (simp add: completion_invariant_def)
  then have "\<not> list_all completion_invariant (execution_queue (run back_calls init))"
    by (simp add: q)
  with st cr co lt show ?thesis by simp
qed

subsection \<open>A busy agent stays busy\<close>

lemma not_available_assign_fails:
  "map_of (agents s) a = Some ag \<Longrightarrow> agent_status ag \<noteq> ''Available'' \<Longrightarrow>
   assign_agent_to_task s tid a = (False, s)"
  by (simp add: assign_agent_to_task_def split: option.splits)

lemma busy_step:
  assumes busy: "map_of (agents s) a = Some ag" "agent_status ag = ''Busy''"
    and nr: "\<not> releases a s c"
  shows "map_of (agents (step c s)) a = Some ag"
proof (cases c)
  case (Register n caps layers machines)
  then show ?thesis using busy nr by (simp add: register_agent_def map_of_agents_update)
next
  case (Enqueue ctx expected n1 n2)
  then show ?thesis using busy by (simp add: create_execution_task_def Let_def)
next
  case (Assign tid n)
  show ?thesis
  proof (cases "n = a")
    case True
    then show ?thesis using Assign busy
      by (simp add: not_available_assign_fails)
  next
    case False
    then show ?thesis using Assign busy
      by (auto simp: assign_agent_to_task_def map_of_agents_update split: option.splits)
  qed
next
  case (Execute tid now)
  then show ?thesis using busy nr
    by (auto simp: execute_task_def Let_def map_of_agents_update split: option.splits)
qed

lemma busy_run:
  "map_of (agents s) a = Some ag \<Longrightarrow> agent_status ag = ''Busy'' \<Longrightarrow> no_release a cs s \<Longrightarrow>
   map_of (agents (run cs s)) a = Some ag"
proof (induction cs arbitrary: s)
  case Nil
  then show ?case by simp
next
  case (Cons c cs)
  from Cons.prems have "map_of (agents (step c s)) a = Some ag"
    by (intro busy_step) auto
  with Cons show ?case by simp
qed

text \<open>
  C3, as the code has it. After \<^verbatim>\<open>assign_agent_to_task\<close> has returned true for
  task \<open>t\<close> and agent \<open>a\<close>, every assignment of any task to \<open>a\<close> returns false and
  changes nothing, through any further calls, as long as none of them registers \<open>a\<close>
  anew or executes a task whose assigned agent is \<open>a\<close>. The task itself is not guarded:
  assigning \<open>t\<close> to another agent returns true exactly when that agent is registered
  and \<^verbatim>\<open>Available\<close>, whatever the status of \<open>t\<close>.
\<close>

theorem assignment_exclusivity:
  assumes ok: "assign_agent_to_task s t a = (True, s1)"
  shows "(\<forall>cs t2. no_release a cs s1 \<longrightarrow>
            assign_agent_to_task (run cs s1) t2 a = (False, run cs s1)) \<and>
         (\<forall>a2. fst (assign_agent_to_task s1 t a2) \<longleftrightarrow>
            (\<exists>ag. map_of (agents s1) a2 = Some ag \<and> agent_status ag = ''Available''))"
proof -
  from ok obtain ag where ag: "map_of (agents s1) a = Some ag" "agent_status ag = ''Busy''"
    by (auto simp: assign_agent_to_task_def map_of_agents_update split: option.splits if_splits)
  from ok obtain u where u: "find_task t (execution_queue s1) = Some u"
    by (auto simp: assign_agent_to_task_def find_task_update_task_same
             split: option.splits if_splits)
  have p1: "\<forall>cs t2. no_release a cs s1 \<longrightarrow>
            assign_agent_to_task (run cs s1) t2 a = (False, run cs s1)"
  proof (intro allI impI)
    fix cs t2
    assume "no_release a cs s1"
    then have "map_of (agents (run cs s1)) a = Some ag"
      by (rule busy_run [OF ag])
    then show "assign_agent_to_task (run cs s1) t2 a = (False, run cs s1)"
      using ag(2) by (intro not_available_assign_fails) auto
  qed
  have p2: "\<forall>a2. fst (assign_agent_to_task s1 t a2) \<longleftrightarrow>
            (\<exists>ag. map_of (agents s1) a2 = Some ag \<and> agent_status ag = ''Available'')"
    using u by (auto simp: assign_agent_to_task_def split: option.splits)
  from p1 p2 show ?thesis by blast
qed

theorem assignment_exclusivity_witness:
  "assign_agent_to_task st_queued example_task_id ''A1'' = (True, st_assigned) \<and>
   no_release ''A1'' more_calls st_assigned \<and>
   assign_agent_to_task (run more_calls st_assigned) ''task_20261104_090508'' ''A1'' =
     (False, run more_calls st_assigned) \<and>
   (\<exists>ag. map_of (agents st_assigned) ''A2'' = Some ag \<and> agent_status ag = ''Available'') \<and>
   fst (assign_agent_to_task st_assigned example_task_id ''A2'')"
proof -
  have "fst (assign_agent_to_task st_queued example_task_id ''A1'')"
    by (simp add: ex_defs)
  then have h: "assign_agent_to_task st_queued example_task_id ''A1'' = (True, st_assigned)"
    by (simp add: st_assigned_def prod_eq_iff)
  have nr: "no_release ''A1'' more_calls st_assigned"
    by (simp add: ex_defs)
  have "map_option agent_status (map_of (agents st_assigned) ''A2'') = Some ''Available''"
    by (simp add: ex_defs)
  then have av: "\<exists>ag. map_of (agents st_assigned) ''A2'' = Some ag \<and>
      agent_status ag = ''Available''"
    by auto
  show ?thesis
    using h nr av assignment_exclusivity [OF h] by blast
qed

text \<open>
  C3 as stated fails: with task \<open>example_task_id\<close> assigned to agent \<open>A1\<close> and in
  status \<^verbatim>\<open>In Progress\<close>, assigning the same task to the available agent \<open>A2\<close>
  returns true, before any execution.
\<close>

theorem assignment_exclusivity_counterexample:
  "fst (assign_agent_to_task st_queued example_task_id ''A1'') \<and>
   st_assigned = snd (assign_agent_to_task st_queued example_task_id ''A1'') \<and>
   map_option task_status (find_task example_task_id (execution_queue st_assigned)) =
     Some ''In Progress'' \<and>
   fst (assign_agent_to_task st_assigned example_task_id ''A2'')"
proof -
  have "fst (assign_agent_to_task st_queued example_task_id ''A1'')"
    by (simp add: ex_defs)
  moreover have "map_option task_status
      (find_task example_task_id (execution_queue st_assigned)) = Some ''In Progress''"
    by (simp add: ex_defs)
  moreover have "fst (assign_agent_to_task st_assigned example_task_id ''A2'')"
    by (simp add: ex_defs)
  ultimately show ?thesis by (simp add: st_assigned_def)
qed

subsection \<open>Tasks and their agents\<close>

lemma list_all_update_found:
  "List.find P xs = Some x \<Longrightarrow> list_all Q xs \<Longrightarrow> Q (f x) \<Longrightarrow> list_all Q (update_first P f xs)"
  by (induction xs) (auto split: if_splits)

lemma list_all_update_task_found:
  "find_task tid q = Some t \<Longrightarrow> list_all Q q \<Longrightarrow> Q (f t) \<Longrightarrow> list_all Q (update_task tid f q)"
  unfolding find_task_def update_task_def by (rule list_all_update_found)

lemma find_task_list_all: "find_task tid q = Some t \<Longrightarrow> list_all Q q \<Longrightarrow> Q t"
  using find_task_in_set [of tid q t] by (auto simp: list_all_iff)

lemma task_linked_update_any:
  "task_linked ags t \<Longrightarrow> task_linked (AList.update n v ags) t"
  by (auto simp: task_linked_def map_of_agents_update split: option.splits)

lemma result_of_update [simp]:
  "result_of (t\<lparr>task_status := x\<rparr>) = result_of t"
  "result_of (t\<lparr>task_results := y\<rparr>) = result_of t"
  "result_of (t\<lparr>completed_at := z\<rparr>) = result_of t"
  "result_of (t\<lparr>assigned_agent := w\<rparr>) = result_of t"
  by (simp_all add: result_of_def)

lemma task_linked_step:
  assumes inv: "list_all (task_linked (agents s)) (execution_queue s)"
  shows "list_all (task_linked (agents (step c s))) (execution_queue (step c s))"
proof (cases c)
  case (Register n caps layers machines)
  then show ?thesis using inv
    by (auto simp: register_agent_def list_all_iff intro: task_linked_update_any)
next
  case (Enqueue ctx expected n1 n2)
  then show ?thesis using inv
    by (simp add: create_execution_task_def Let_def task_linked_def)
next
  case (Assign tid n)
  show ?thesis
  proof (cases "fst (assign_agent_to_task s tid n)")
    case False
    then have "snd (assign_agent_to_task s tid n) = s"
      by (auto simp: assign_agent_to_task_def split: option.splits if_splits)
    then show ?thesis using Assign inv by simp
  next
    case True
    then obtain a t where a: "map_of (agents s) n = Some a"
      and t: "find_task tid (execution_queue s) = Some t"
      and s': "snd (assign_agent_to_task s tid n) =
         s\<lparr>execution_queue := update_task tid
              (\<lambda>t. t\<lparr>assigned_agent := Some n, task_status := ''In Progress''\<rparr>)
              (execution_queue s),
            agents := AList.update n (a\<lparr>agent_status := ''Busy'', current_task := Some tid\<rparr>)
              (agents s)\<rparr>"
      by (auto simp: assign_agent_to_task_def split: option.splits if_splits)
    let ?ags = "AList.update n (a\<lparr>agent_status := ''Busy'', current_task := Some tid\<rparr>) (agents s)"
    have old: "list_all (task_linked ?ags) (execution_queue s)"
      using inv by (auto simp: list_all_iff intro: task_linked_update_any)
    have new: "task_linked ?ags (t\<lparr>assigned_agent := Some n, task_status := ''In Progress''\<rparr>)"
      by (simp add: task_linked_def map_of_agents_update)
    have "list_all (task_linked ?ags) (update_task tid
              (\<lambda>t. t\<lparr>assigned_agent := Some n, task_status := ''In Progress''\<rparr>)
              (execution_queue s))"
      by (rule list_all_update_task_found [OF t]) (use old new in simp_all)
    then show ?thesis using Assign s' by simp
  qed
next
  case (Execute tid now)
  show ?thesis
  proof (cases "find_task tid (execution_queue s)")
    case None
    then show ?thesis using Execute inv by (simp add: execute_task_def)
  next
    case (Some t)
    have lt: "task_linked (agents s) t"
      by (rule find_task_list_all [OF Some inv])
    show ?thesis
    proof (cases "assigned_agent t")
      case None
      then show ?thesis using Execute inv Some by (simp add: execute_task_def)
    next
      case (Some n)
      note asg = Some
      show ?thesis
      proof (cases "n = []")
        case True
        then show ?thesis using Execute inv \<open>find_task tid (execution_queue s) = Some t\<close> asg
          by (simp add: execute_task_def)
      next
        case False
        from lt asg obtain a where a: "map_of (agents s) n = Some a"
          by (auto simp: task_linked_def)
        let ?f = "\<lambda>u. u\<lparr>task_status := ''Completed'', task_results := Some (result_of t),
                         completed_at := Some now\<rparr>"
        let ?ags = "AList.update n (a\<lparr>agent_status := ''Available'', current_task := None\<rparr>) (agents s)"
        have s': "step c s = s\<lparr>execution_queue := update_task tid ?f (execution_queue s),
                               agents := ?ags\<rparr>"
          using Execute \<open>find_task tid (execution_queue s) = Some t\<close> asg False a
          by (simp add: execute_task_def Let_def result_of_def)
        have old: "list_all (task_linked ?ags) (execution_queue s)"
          using inv by (auto simp: list_all_iff intro: task_linked_update_any)
        have new: "task_linked ?ags (?f t)"
          using asg False by (simp add: task_linked_def map_of_agents_update)
        have "list_all (task_linked ?ags) (update_task tid ?f (execution_queue s))"
          by (rule list_all_update_task_found [OF \<open>find_task tid (execution_queue s) = Some t\<close>])
             (use old new in simp_all)
        then show ?thesis using s' by simp
      qed
    qed
  qed
qed

lemma task_linked_run:
  "list_all (task_linked (agents s)) (execution_queue s) \<Longrightarrow>
   list_all (task_linked (agents (run cs s))) (execution_queue (run cs s))"
  by (induction cs arbitrary: s) (simp_all add: task_linked_step)

text \<open>
  C4, as the code has it. Let a task be \<^verbatim>\<open>Completed\<close> in a state reached from the
  initial one. A later \<^verbatim>\<open>execute_task\<close> of it returns the result the task already
  carries and leaves its status, assigned agent and result as they are; it overwrites the
  completion time with the new clock reading and sets the assigned agent
  \<^verbatim>\<open>Available\<close> once more. A later \<^verbatim>\<open>assign_agent_to_task\<close> leaves result and
  completion time as they are; when it returns true it replaces the assigned agent and
  sets the status to \<^verbatim>\<open>In Progress\<close>, and when it returns false the task is unchanged.
\<close>

theorem completed_task_later_calls:
  assumes found: "find_task tid (execution_queue (run cs init)) = Some t"
    and compl: "task_status t = ''Completed''"
  shows "(\<exists>a ag. assigned_agent t = Some a \<and> task_results t = Some (result_of t) \<and>
            fst (execute_task (run cs init) tid now) = Returned (Results_reply (result_of t)) \<and>
            find_task tid (execution_queue (snd (execute_task (run cs init) tid now))) =
              Some (t\<lparr>completed_at := Some now\<rparr>) \<and>
            map_of (agents (snd (execute_task (run cs init) tid now))) a = Some ag \<and>
            agent_status ag = ''Available'' \<and> current_task ag = None) \<and>
         (\<forall>n. \<exists>t'. find_task tid (execution_queue (snd (assign_agent_to_task (run cs init) tid n)))
                     = Some t' \<and>
                   task_results t' = task_results t \<and> completed_at t' = completed_at t \<and>
                   (if fst (assign_agent_to_task (run cs init) tid n)
                    then assigned_agent t' = Some n \<and> task_status t' = ''In Progress''
                    else t' = t))"
proof -
  let ?s = "run cs init"
  have inv: "list_all (task_linked (agents ?s)) (execution_queue ?s)"
    by (rule task_linked_run) (simp add: init_def)
  have lt: "task_linked (agents ?s) t"
    by (rule find_task_list_all [OF found inv])
  from lt compl obtain a ag0 where a: "assigned_agent t = Some a" "a \<noteq> []"
      "map_of (agents ?s) a = Some ag0" and r: "task_results t = Some (result_of t)"
    by (auto simp: task_linked_def split: option.splits)
  have same: "t\<lparr>task_status := ''Completed'', task_results := Some (result_of t),
                completed_at := Some now\<rparr> = t\<lparr>completed_at := Some now\<rparr>"
    using compl r by simp
  have p1: "\<exists>a ag. assigned_agent t = Some a \<and> task_results t = Some (result_of t) \<and>
            fst (execute_task ?s tid now) = Returned (Results_reply (result_of t)) \<and>
            find_task tid (execution_queue (snd (execute_task ?s tid now))) =
              Some (t\<lparr>completed_at := Some now\<rparr>) \<and>
            map_of (agents (snd (execute_task ?s tid now))) a = Some ag \<and>
            agent_status ag = ''Available'' \<and> current_task ag = None"
    using found a r same
    by (simp add: execute_task_def Let_def result_of_def [symmetric] map_of_agents_update
          find_task_update_task_same)
  have p2: "\<forall>n. \<exists>t'. find_task tid (execution_queue (snd (assign_agent_to_task ?s tid n)))
                     = Some t' \<and>
                   task_results t' = task_results t \<and> completed_at t' = completed_at t \<and>
                   (if fst (assign_agent_to_task ?s tid n)
                    then assigned_agent t' = Some n \<and> task_status t' = ''In Progress''
                    else t' = t)"
    using found
    by (auto simp: assign_agent_to_task_def find_task_update_task_same split: option.splits)
  from p1 p2 show ?thesis by blast
qed

theorem completed_task_later_calls_witness:
  "find_task example_task_id (execution_queue (run example_calls init)) =
     Some example_completed_task \<and>
   task_status example_completed_task = ''Completed'' \<and>
   fst (execute_task (run example_calls init) example_task_id clock_d) =
     Returned (Results_reply (result_of example_completed_task)) \<and>
   find_task example_task_id
       (execution_queue (snd (execute_task (run example_calls init) example_task_id clock_d))) =
     Some (example_completed_task\<lparr>completed_at := Some clock_d\<rparr>) \<and>
   (\<exists>t'. find_task example_task_id (execution_queue
             (snd (assign_agent_to_task (run example_calls init) example_task_id ''A1''))) =
           Some t' \<and>
         task_results t' = task_results example_completed_task \<and>
         completed_at t' = completed_at example_completed_task)"
proof -
  have found: "find_task example_task_id (execution_queue (run example_calls init)) =
     Some example_completed_task"
    by (simp add: ex_defs example_completed_task_def)
  have compl: "task_status example_completed_task = ''Completed''"
    by (simp add: example_completed_task_def)
  show ?thesis
    using found compl
      completed_task_later_calls [OF found compl, of clock_d]
    by blast
qed

text \<open>
  C4 as stated fails: the example task is \<^verbatim>\<open>Completed\<close> at clock reading
  \<open>clock_c\<close> with agent \<open>A1\<close>; a second execution stamps \<open>clock_d\<close>, and an
  assignment to the available agent \<open>A2\<close> replaces the assigned agent.
\<close>

theorem completed_task_later_calls_counterexample:
  "map_option task_status (find_task example_task_id (execution_queue st_completed)) =
     Some ''Completed'' \<and>
   map_option completed_at (find_task example_task_id (execution_queue st_completed)) =
     Some (Some clock_c) \<and>
   map_option completed_at (find_task example_task_id
       (execution_queue (snd (execute_task st_completed example_task_id clock_d)))) =
     Some (Some clock_d) \<and>
   clock_c \<noteq> clock_d \<and>
   map_option assigned_agent (find_task example_task_id (execution_queue st_completed)) =
     Some (Some ''A1'') \<and>
   map_option assigned_agent (find_task example_task_id
       (execution_queue (snd (assign_agent_to_task st_completed example_task_id ''A2'')))) =
     Some (Some ''A2'')"
  by (simp add: ex_defs)

subsection \<open>Task identifiers\<close>

lemma digit_char_eq_iff: "digit_char a = digit_char b \<longleftrightarrow> a mod 10 = b mod 10"
proof -
  have d: "distinct ''0123456789''" by simp
  have "(''0123456789'' ! (a mod 10) = ''0123456789'' ! (b mod 10)) = (a mod 10 = b mod 10)"
    by (rule nth_eq_iff_index_eq [OF d]) simp_all
  then show ?thesis by (simp only: digit_char_nth)
qed

lemma digits_step: "a div 10 = b div 10 \<Longrightarrow> a mod 10 = b mod 10 \<Longrightarrow> a = (b::nat)"
  by (metis div_mult_mod_eq)

lemma pad2_eq_iff:
  assumes "a < 100" "b < 100"
  shows "pad2 a = pad2 b \<longleftrightarrow> a = b"
proof
  assume "pad2 a = pad2 b"
  then have d: "a div 10 mod 10 = b div 10 mod 10" "a mod 10 = b mod 10"
    by (simp_all add: pad2_def digit_char_eq_iff)
  from assms have "a div 10 < 10" "b div 10 < 10" by simp_all
  with d(1) have e1: "a div 10 = b div 10" by simp
  from e1 d(2) show "a = b" by (rule digits_step)
qed simp

lemma pad4_eq_iff:
  assumes "a < 10000" "b < 10000"
  shows "pad4 a = pad4 b \<longleftrightarrow> a = b"
proof
  assume "pad4 a = pad4 b"
  then have d: "a div 1000 mod 10 = b div 1000 mod 10" "a div 100 mod 10 = b div 100 mod 10"
      "a div 10 mod 10 = b div 10 mod 10" "a mod 10 = b mod 10"
    by (simp_all add: pad4_def digit_char_eq_iff)
  from assms have "a div 1000 < 10" "b div 1000 < 10" by simp_all
  with d(1) have e3: "a div 1000 = b div 1000" by simp
  have dd: "x div 100 div 10 = x div 1000" "x div 10 div 10 = x div 100" for x :: nat
    by (simp_all add: div_mult2_eq [symmetric])
  have e2: "a div 100 = b div 100"
    by (rule digits_step) (use e3 d(2) in \<open>simp_all add: dd\<close>)
  have e1: "a div 10 = b div 10"
    by (rule digits_step) (use e2 d(3) in \<open>simp_all add: dd\<close>)
  show "a = b"
    by (rule digits_step) (use e1 d(4) in simp_all)
qed simp

lemma length_pad [simp]: "length (pad2 n) = 2" "length (pad4 n) = 4"
  by (simp_all add: pad2_def pad4_def)

lemma strftime_eq_iff:
  assumes "valid_datetime a" "valid_datetime b"
  shows "strftime_Ymd_HMS a = strftime_Ymd_HMS b \<longleftrightarrow> to_second a = to_second b"
proof -
  have "strftime_Ymd_HMS a = strftime_Ymd_HMS b \<longleftrightarrow>
      pad4 (year a) = pad4 (year b) \<and> pad2 (month a) = pad2 (month b) \<and>
      pad2 (day a) = pad2 (day b) \<and> pad2 (hour a) = pad2 (hour b) \<and>
      pad2 (minute a) = pad2 (minute b) \<and> pad2 (second a) = pad2 (second b)"
    by (simp add: strftime_Ymd_HMS_def)
  also have "\<dots> \<longleftrightarrow> to_second a = to_second b"
    using assms by (simp add: valid_datetime_def to_second_def pad2_eq_iff pad4_eq_iff)
  finally show ?thesis .
qed

lemma create_execution_task_id:
  "fst (create_execution_task s ctx expected now_id now_created) =
     ''task_'' @ strftime_Ymd_HMS now_id"
  by (simp add: create_execution_task_def Let_def)

lemma enqueue_all_Cons:
  "fst (enqueue_all ((ctx, expected, now_id, now_created) # rest) s) =
     fst (create_execution_task s ctx expected now_id now_created) #
     fst (enqueue_all rest (snd (create_execution_task s ctx expected now_id now_created)))"
  by (simp add: split_beta Let_def)

lemma enqueue_all_ids:
  "fst (enqueue_all calls s) =
     map (\<lambda>(ctx, expected, now_id, now_created). ''task_'' @ strftime_Ymd_HMS now_id) calls"
proof (induction calls arbitrary: s)
  case Nil
  then show ?case by simp
next
  case (Cons x rest)
  obtain ctx expected now_id now_created where x: "x = (ctx, expected, now_id, now_created)"
    by (cases x) auto
  show ?case
    unfolding x enqueue_all_Cons Cons.IH by (simp add: create_execution_task_id)
qed

lemma distinct_map_cong_iff:
  "(\<And>x y. x \<in> set xs \<Longrightarrow> y \<in> set xs \<Longrightarrow> f x = f y \<longleftrightarrow> g x = g y) \<Longrightarrow>
   distinct (map f xs) = distinct (map g xs)"
proof (induction xs)
  case Nil
  then show ?case by simp
next
  case (Cons x xs)
  have "f x \<in> f ` set xs \<longleftrightarrow> g x \<in> g ` set xs"
    using Cons.prems by (auto simp: image_iff) 
  moreover have "distinct (map f xs) = distinct (map g xs)"
    using Cons by auto
  ultimately show ?case by simp
qed

text \<open>
  C2, as the code has it. The identifier is \<^verbatim>\<open>task_\<close> followed by the clock reading
  printed to the second. For any sequence of \<^verbatim>\<open>create_execution_task\<close> calls with
  valid clock readings, from any state, the identifiers returned are pairwise distinct
  exactly when the readings, cut to the second, are pairwise distinct.
\<close>

theorem task_ids_distinct_iff:
  assumes "list_all (\<lambda>(ctx, expected, now_id, now_created). valid_datetime now_id) calls"
  shows "distinct (fst (enqueue_all calls s)) \<longleftrightarrow>
         distinct (map (\<lambda>(ctx, expected, now_id, now_created). to_second now_id) calls)"
  unfolding enqueue_all_ids
proof (rule distinct_map_cong_iff)
  fix x y
  assume xy: "x \<in> set calls" "y \<in> set calls"
  obtain c1 e1 a a' where x: "x = (c1, e1, a, a')" by (cases x) auto
  obtain c2 e2 b b' where y: "y = (c2, e2, b, b')" by (cases y) auto
  from assms xy have "valid_datetime a" "valid_datetime b"
    by (auto simp: list_all_iff x y)
  then have "strftime_Ymd_HMS a = strftime_Ymd_HMS b \<longleftrightarrow> to_second a = to_second b"
    by (rule strftime_eq_iff)
  then show "((case x of (ctx, expected, now_id, now_created) \<Rightarrow>
                 ''task_'' @ strftime_Ymd_HMS now_id) =
              (case y of (ctx, expected, now_id, now_created) \<Rightarrow>
                 ''task_'' @ strftime_Ymd_HMS now_id)) \<longleftrightarrow>
             ((case x of (ctx, expected, now_id, now_created) \<Rightarrow> to_second now_id) =
              (case y of (ctx, expected, now_id, now_created) \<Rightarrow> to_second now_id))"
    by (simp add: x y)
qed

theorem task_ids_distinct_iff_witness:
  "list_all (\<lambda>(ctx, expected, now_id, now_created). valid_datetime now_id)
     [(example_context, example_outputs, clock_a, clock_b),
      (example_context, example_outputs, clock_c, clock_d)] \<and>
   distinct (map (\<lambda>(ctx, expected, now_id, now_created). to_second now_id)
     [(example_context, example_outputs, clock_a, clock_b),
      (example_context, example_outputs, clock_c, clock_d)]) \<and>
   distinct (fst (enqueue_all
     [(example_context, example_outputs, clock_a, clock_b),
      (example_context, example_outputs, clock_c, clock_d)] init))"
proof -
  have v: "list_all (\<lambda>(ctx, expected, now_id, now_created). valid_datetime now_id)
     [(example_context, example_outputs, clock_a, clock_b),
      (example_context, example_outputs, clock_c, clock_d)]"
    by (simp add: valid_datetime_def clock_a_def clock_c_def)
  have d: "distinct (map (\<lambda>(ctx, expected, now_id, now_created). to_second now_id)
     [(example_context, example_outputs, clock_a, clock_b),
      (example_context, example_outputs, clock_c, clock_d)])"
    by (simp add: to_second_def clock_a_def clock_c_def)
  show ?thesis
    using v d task_ids_distinct_iff [OF v, of init] by simp
qed

text \<open>
  C2 as stated fails: two calls at the same clock reading, and two calls at readings of
  the same second that differ in the microsecond, return the same identifier twice.
\<close>

theorem task_ids_distinct_counterexample:
  "fst (enqueue_all
     [(example_context, example_outputs, clock_a, clock_a),
      (example_context, example_outputs, clock_a, clock_a)] init) =
     [''task_20261104_090507'', ''task_20261104_090507''] \<and>
   fst (enqueue_all
     [(example_context, example_outputs, clock_a, clock_a),
      (example_context, example_outputs, clock_b, clock_b)] init) =
     [''task_20261104_090507'', ''task_20261104_090507''] \<and>
   clock_a \<noteq> clock_b"
  by (simp add: ex_defs)

subsection \<open>The estimators\<close>

text \<open>
  C9, as the code has it. The four estimators are functions of the context alone, each
  of the fields it reads: equal fields give equal outputs, and every context has an
  output. The impact estimator reads no keyword: it returns the \<^verbatim>\<open>High\<close> label when
  ten times the layer number plus the length of the focus is above 50, the
  \<^verbatim>\<open>Medium\<close> label when it is above 30, and the \<^verbatim>\<open>Low\<close> label otherwise. The
  timing and energy estimators return one of three fixed labels starting with
  \<^verbatim>\<open>High\<close>, \<^verbatim>\<open>Medium\<close> or \<^verbatim>\<open>Low\<close>; a string with no known keyword gives the
  \<^verbatim>\<open>Low\<close> label. The business value estimator returns one of four fixed revenue
  brackets, none of them a tier label; a focus with no known keyword gives the bracket
  \<^verbatim>\<open>$10K-50K\<close>.
\<close>

theorem estimators_total_deterministic:
  "calculate_cross_dimensional_impact c \<in>
     {''High - Significant cross-dimensional optimization achieved'',
      ''Medium - Moderate cross-dimensional impact'',
      ''Low - Limited cross-dimensional impact''} \<and>
   calculate_temporal_optimization c \<in>
     {''High - Rapid implementation timeline'', ''Medium - Standard implementation timeline'',
      ''Low - Extended implementation timeline''} \<and>
   calculate_energy_efficiency c \<in>
     {''High - Maximum energy utilization'', ''Medium - Moderate energy utilization'',
      ''Low - Minimal energy utilization''} \<and>
   tier_label (calculate_cross_dimensional_impact c) \<and>
   tier_label (calculate_temporal_optimization c) \<and>
   tier_label (calculate_energy_efficiency c) \<and>
   calculate_business_value c \<in>
     {''$50K-100K monthly revenue potential'', ''$100K-500K monthly revenue potential'',
      ''$25K-75K monthly revenue potential'', ''$10K-50K monthly revenue potential''} \<and>
   \<not> tier_label (calculate_business_value c) \<and>
   (current_reality_layer c = current_reality_layer c' \<and>
    current_business_focus c = current_business_focus c' \<longrightarrow>
      calculate_cross_dimensional_impact c = calculate_cross_dimensional_impact c') \<and>
   (current_business_focus c = current_business_focus c' \<longrightarrow>
      calculate_business_value c = calculate_business_value c') \<and>
   (temporal_constraints c = temporal_constraints c' \<longrightarrow>
      calculate_temporal_optimization c = calculate_temporal_optimization c') \<and>
   (energy_resources c = energy_resources c' \<longrightarrow>
      calculate_energy_efficiency c = calculate_energy_efficiency c') \<and>
   (50 < layer_value (current_reality_layer c) * 10 + int (length (current_business_focus c)) \<longrightarrow>
      calculate_cross_dimensional_impact c =
        ''High - Significant cross-dimensional optimization achieved'') \<and>
   (30 < layer_value (current_reality_layer c) * 10 + int (length (current_business_focus c)) \<and>
    layer_value (current_reality_layer c) * 10 + int (length (current_business_focus c)) \<le> 50 \<longrightarrow>
      calculate_cross_dimensional_impact c = ''Medium - Moderate cross-dimensional impact'') \<and>
   (layer_value (current_reality_layer c) * 10 + int (length (current_business_focus c)) \<le> 30 \<longrightarrow>
      calculate_cross_dimensional_impact c = ''Low - Limited cross-dimensional impact'') \<and>
   (\<not> str_contains ''credit repair'' (lower (current_business_focus c)) \<and>
    \<not> str_contains ''real estate'' (lower (current_business_focus c)) \<and>
    \<not> str_contains ''ai automation'' (lower (current_business_focus c)) \<longrightarrow>
      calculate_business_value c = ''$10K-50K monthly revenue potential'') \<and>
   (\<not> str_contains ''30-day'' (lower (temporal_constraints c)) \<and>
    \<not> str_contains ''90-day'' (lower (temporal_constraints c)) \<longrightarrow>
      calculate_temporal_optimization c = ''Low - Extended implementation timeline'') \<and>
   (\<not> str_contains ''high'' (lower (energy_resources c)) \<and>
    \<not> str_contains ''medium'' (lower (energy_resources c)) \<longrightarrow>
      calculate_energy_efficiency c = ''Low - Minimal energy utilization'')"
proof -
  have x: "calculate_cross_dimensional_impact c \<in>
     {''High - Significant cross-dimensional optimization achieved'',
      ''Medium - Moderate cross-dimensional impact'',
      ''Low - Limited cross-dimensional impact''}"
    by (simp add: calculate_cross_dimensional_impact_def Let_def)
  have t: "calculate_temporal_optimization c \<in>
     {''High - Rapid implementation timeline'', ''Medium - Standard implementation timeline'',
      ''Low - Extended implementation timeline''}"
    by (simp add: calculate_temporal_optimization_def Let_def)
  have e: "calculate_energy_efficiency c \<in>
     {''High - Maximum energy utilization'', ''Medium - Moderate energy utilization'',
      ''Low - Minimal energy utilization''}"
    by (simp add: calculate_energy_efficiency_def Let_def)
  have b: "calculate_business_value c \<in>
     {''$50K-100K monthly revenue potential'', ''$100K-500K monthly revenue potential'',
      ''$25K-75K monthly revenue potential'', ''$10K-50K monthly revenue potential''}"
    by (simp add: calculate_business_value_def Let_def)
  have lx: "tier_label (calculate_cross_dimensional_impact c)"
    using x by (auto simp: tier_label_def)
  have lt: "tier_label (calculate_temporal_optimization c)"
    using t by (auto simp: tier_label_def)
  have le: "tier_label (calculate_energy_efficiency c)"
    using e by (auto simp: tier_label_def)
  have nb: "\<not> tier_label (calculate_business_value c)"
    using b by (auto simp: tier_label_def)
  have d1: "current_reality_layer c = current_reality_layer c' \<and>
    current_business_focus c = current_business_focus c' \<longrightarrow>
      calculate_cross_dimensional_impact c = calculate_cross_dimensional_impact c'"
    by (simp add: calculate_cross_dimensional_impact_def)
  have d1b: "current_business_focus c = current_business_focus c' \<longrightarrow>
      calculate_business_value c = calculate_business_value c'"
    by (simp add: calculate_business_value_def)
  have d2: "temporal_constraints c = temporal_constraints c' \<longrightarrow>
      calculate_temporal_optimization c = calculate_temporal_optimization c'"
    by (simp add: calculate_temporal_optimization_def)
  have d3: "energy_resources c = energy_resources c' \<longrightarrow>
      calculate_energy_efficiency c = calculate_energy_efficiency c'"
    by (simp add: calculate_energy_efficiency_def)
  have i1: "50 < layer_value (current_reality_layer c) * 10 + int (length (current_business_focus c)) \<longrightarrow>
      calculate_cross_dimensional_impact c =
        ''High - Significant cross-dimensional optimization achieved''"
    by (simp add: calculate_cross_dimensional_impact_def Let_def)
  have i2: "30 < layer_value (current_reality_layer c) * 10 + int (length (current_business_focus c)) \<and>
    layer_value (current_reality_layer c) * 10 + int (length (current_business_focus c)) \<le> 50 \<longrightarrow>
      calculate_cross_dimensional_impact c = ''Medium - Moderate cross-dimensional impact''"
    by (simp add: calculate_cross_dimensional_impact_def Let_def)
  have i3: "layer_value (current_reality_layer c) * 10 + int (length (current_business_focus c)) \<le> 30 \<longrightarrow>
      calculate_cross_dimensional_impact c = ''Low - Limited cross-dimensional impact''"
    by (simp add: calculate_cross_dimensional_impact_def Let_def)
  have f1: "\<not> str_contains ''credit repair'' (lower (current_business_focus c)) \<and>
    \<not> str_contains ''real estate'' (lower (current_business_focus c)) \<and>
    \<not> str_contains ''ai automation'' (lower (current_business_focus c)) \<longrightarrow>
      calculate_business_value c = ''$10K-50K monthly revenue potential''"
    by (simp add: calculate_business_value_def Let_def)
  have f2: "\<not> str_contains ''30-day'' (lower (temporal_constraints c)) \<and>
    \<not> str_contains ''90-day'' (lower (temporal_constraints c)) \<longrightarrow>
      calculate_temporal_optimization c = ''Low - Extended implementation timeline''"
    by (simp add: calculate_temporal_optimization_def Let_def)
  have f3: "\<not> str_contains ''high'' (lower (energy_resources c)) \<and>
    \<not> str_contains ''medium'' (lower (energy_resources c)) \<longrightarrow>
      calculate_energy_efficiency c = ''Low - Minimal energy utilization''"
    by (simp add: calculate_energy_efficiency_def Let_def)
  show ?thesis
    by (intro conjI x t e b lx lt le nb d1 d1b d2 d3 i1 i2 i3 f1 f2 f3)
qed

theorem estimators_total_deterministic_witness:
  "current_reality_layer plain_context =
     current_reality_layer (plain_context\<lparr>priority := ''High''\<rparr>) \<and>
   current_business_focus plain_context =
     current_business_focus (plain_context\<lparr>priority := ''High''\<rparr>) \<and>
   temporal_constraints plain_context =
     temporal_constraints (plain_context\<lparr>priority := ''High''\<rparr>) \<and>
   energy_resources plain_context =
     energy_resources (plain_context\<lparr>priority := ''High''\<rparr>) \<and>
   \<not> str_contains ''credit repair'' (lower (current_business_focus plain_context)) \<and>
   \<not> str_contains ''real estate'' (lower (current_business_focus plain_context)) \<and>
   \<not> str_contains ''ai automation'' (lower (current_business_focus plain_context)) \<and>
   \<not> str_contains ''30-day'' (lower (temporal_constraints plain_context)) \<and>
   \<not> str_contains ''90-day'' (lower (temporal_constraints plain_context)) \<and>
   \<not> str_contains ''high'' (lower (energy_resources plain_context)) \<and>
   \<not> str_contains ''medium'' (lower (energy_resources plain_context)) \<and>
   calculate_business_value plain_context = ''$10K-50K monthly revenue potential'' \<and>
   calculate_temporal_optimization plain_context = ''Low - Extended implementation timeline'' \<and>
   calculate_energy_efficiency plain_context = ''Low - Minimal energy utilization'' \<and>
   calculate_cross_dimensional_impact plain_context =
     calculate_cross_dimensional_impact (plain_context\<lparr>priority := ''High''\<rparr>) \<and>
   calculate_business_value plain_context =
     calculate_business_value (plain_context\<lparr>priority := ''High''\<rparr>) \<and>
   layer_value (current_reality_layer plain_context) * 10 + int (length (current_business_focus plain_context)) \<le> 30 \<and>
   calculate_cross_dimensional_impact plain_context =
     ''Low - Limited cross-dimensional impact'' \<and>
   50 < layer_value (current_reality_layer (plain_context\<lparr>current_reality_layer := DIVINE\<rparr>)) * 10 + int (length (current_business_focus (plain_context\<lparr>current_reality_layer := DIVINE\<rparr>))) \<and>
   calculate_cross_dimensional_impact
     (plain_context\<lparr>current_reality_layer := DIVINE\<rparr>) =
     ''High - Significant cross-dimensional optimization achieved'' \<and>
   30 < layer_value (current_reality_layer (plain_context\<lparr>current_reality_layer := ASTRAL\<rparr>)) * 10 + int (length (current_business_focus (plain_context\<lparr>current_reality_layer := ASTRAL\<rparr>))) \<and>
   layer_value (current_reality_layer (plain_context\<lparr>current_reality_layer := ASTRAL\<rparr>)) * 10 + int (length (current_business_focus (plain_context\<lparr>current_reality_layer := ASTRAL\<rparr>))) \<le> 50 \<and>
   calculate_cross_dimensional_impact
     (plain_context\<lparr>current_reality_layer := ASTRAL\<rparr>) =
     ''Medium - Moderate cross-dimensional impact''"
proof -
  have h1: "\<not> str_contains ''credit repair'' (lower (current_business_focus plain_context)) \<and>
      \<not> str_contains ''real estate'' (lower (current_business_focus plain_context)) \<and>
      \<not> str_contains ''ai automation'' (lower (current_business_focus plain_context))"
    by code_simp
  have h2: "\<not> str_contains ''30-day'' (lower (temporal_constraints plain_context)) \<and>
      \<not> str_contains ''90-day'' (lower (temporal_constraints plain_context))"
    by code_simp
  have h3: "\<not> str_contains ''high'' (lower (energy_resources plain_context)) \<and>
      \<not> str_contains ''medium'' (lower (energy_resources plain_context))"
    by code_simp
  have e1: "current_reality_layer plain_context =
      current_reality_layer (plain_context\<lparr>priority := ''High''\<rparr>)"
    by simp
  have e2: "current_business_focus plain_context =
      current_business_focus (plain_context\<lparr>priority := ''High''\<rparr>)"
    by simp
  have e3: "temporal_constraints plain_context =
      temporal_constraints (plain_context\<lparr>priority := ''High''\<rparr>)"
    by simp
  have e4: "energy_resources plain_context =
      energy_resources (plain_context\<lparr>priority := ''High''\<rparr>)"
    by simp
  have s1: "layer_value (current_reality_layer plain_context) * 10 + int (length (current_business_focus plain_context)) \<le> 30"
    by (simp add: plain_context_def)
  have s2: "50 < layer_value (current_reality_layer (plain_context\<lparr>current_reality_layer := DIVINE\<rparr>)) * 10 + int (length (current_business_focus (plain_context\<lparr>current_reality_layer := DIVINE\<rparr>)))"
    by (simp add: plain_context_def)
  have s3: "30 < layer_value (current_reality_layer (plain_context\<lparr>current_reality_layer := ASTRAL\<rparr>)) * 10 + int (length (current_business_focus (plain_context\<lparr>current_reality_layer := ASTRAL\<rparr>)))"
    by (simp add: plain_context_def)
  have s4: "layer_value (current_reality_layer (plain_context\<lparr>current_reality_layer := ASTRAL\<rparr>)) * 10 + int (length (current_business_focus (plain_context\<lparr>current_reality_layer := ASTRAL\<rparr>))) \<le> 50"
    by (simp add: plain_context_def)
  note P = estimators_total_deterministic
      [of plain_context "plain_context\<lparr>priority := ''High''\<rparr>"]
  note D = estimators_total_deterministic
      [of "plain_context\<lparr>current_reality_layer := DIVINE\<rparr>" plain_context]
  note A = estimators_total_deterministic
      [of "plain_context\<lparr>current_reality_layer := ASTRAL\<rparr>" plain_context]
  note P_impact_det = P
    [THEN conjunct2, THEN conjunct2, THEN conjunct2, THEN conjunct2, THEN conjunct2, THEN conjunct2, THEN conjunct2, THEN conjunct2, THEN conjunct1]
  note P_value_det = P
    [THEN conjunct2, THEN conjunct2, THEN conjunct2, THEN conjunct2, THEN conjunct2, THEN conjunct2, THEN conjunct2, THEN conjunct2, THEN conjunct2, THEN conjunct1]
  note D_high = D
    [THEN conjunct2, THEN conjunct2, THEN conjunct2, THEN conjunct2, THEN conjunct2, THEN conjunct2, THEN conjunct2, THEN conjunct2, THEN conjunct2, THEN conjunct2, THEN conjunct2, THEN conjunct2, THEN conjunct1]
  note A_medium = A
    [THEN conjunct2, THEN conjunct2, THEN conjunct2, THEN conjunct2, THEN conjunct2, THEN conjunct2, THEN conjunct2, THEN conjunct2, THEN conjunct2, THEN conjunct2, THEN conjunct2, THEN conjunct2, THEN conjunct2, THEN conjunct1]
  note P_low = P
    [THEN conjunct2, THEN conjunct2, THEN conjunct2, THEN conjunct2, THEN conjunct2, THEN conjunct2, THEN conjunct2, THEN conjunct2, THEN conjunct2, THEN conjunct2, THEN conjunct2, THEN conjunct2, THEN conjunct2, THEN conjunct2, THEN conjunct1]
  note P_value_default = P
    [THEN conjunct2, THEN conjunct2, THEN conjunct2, THEN conjunct2, THEN conjunct2, THEN conjunct2, THEN conjunct2, THEN conjunct2, THEN conjunct2, THEN conjunct2, THEN conjunct2, THEN conjunct2, THEN conjunct2, THEN conjunct2, THEN conjunct2, THEN conjunct1]
  note P_timing_default = P
    [THEN conjunct2, THEN conjunct2, THEN conjunct2, THEN conjunct2, THEN conjunct2, THEN conjunct2, THEN conjunct2, THEN conjunct2, THEN conjunct2, THEN conjunct2, THEN conjunct2, THEN conjunct2, THEN conjunct2, THEN conjunct2, THEN conjunct2, THEN conjunct2, THEN conjunct1]
  note P_energy_default = P
    [THEN conjunct2, THEN conjunct2, THEN conjunct2, THEN conjunct2, THEN conjunct2, THEN conjunct2, THEN conjunct2, THEN conjunct2, THEN conjunct2, THEN conjunct2, THEN conjunct2, THEN conjunct2, THEN conjunct2, THEN conjunct2, THEN conjunct2, THEN conjunct2, THEN conjunct2]
  have bv: "calculate_business_value plain_context = ''$10K-50K monthly revenue potential''"
    by (rule P_value_default [THEN mp, OF h1])
  have to: "calculate_temporal_optimization plain_context =
      ''Low - Extended implementation timeline''"
    by (rule P_timing_default [THEN mp, OF h2])
  have ee: "calculate_energy_efficiency plain_context = ''Low - Minimal energy utilization''"
    by (rule P_energy_default [THEN mp, OF h3])
  have ci: "calculate_cross_dimensional_impact plain_context =
      calculate_cross_dimensional_impact (plain_context\<lparr>priority := ''High''\<rparr>)"
    by (rule P_impact_det [THEN mp, OF conjI [OF e1 e2]])
  have cb: "calculate_business_value plain_context =
      calculate_business_value (plain_context\<lparr>priority := ''High''\<rparr>)"
    by (rule P_value_det [THEN mp, OF e2])
  have lo: "calculate_cross_dimensional_impact plain_context =
      ''Low - Limited cross-dimensional impact''"
    by (rule P_low [THEN mp, OF s1])
  have hi: "calculate_cross_dimensional_impact
      (plain_context\<lparr>current_reality_layer := DIVINE\<rparr>) =
      ''High - Significant cross-dimensional optimization achieved''"
    by (rule D_high [THEN mp, OF s2])
  have me: "calculate_cross_dimensional_impact
      (plain_context\<lparr>current_reality_layer := ASTRAL\<rparr>) =
      ''Medium - Moderate cross-dimensional impact''"
    by (rule A_medium [THEN mp, OF conjI [OF s3 s4]])
  show ?thesis
    by (intro conjI e1 e2 e3 e4 h1 [THEN conjunct1] h1 [THEN conjunct2, THEN conjunct1]
          h1 [THEN conjunct2, THEN conjunct2] h2 [THEN conjunct1] h2 [THEN conjunct2]
          h3 [THEN conjunct1] h3 [THEN conjunct2] bv to ee ci cb s1 lo s2 hi s3 s4 me)
qed

lemma business_value_example:
  "calculate_business_value example_context = ''$50K-100K monthly revenue potential''"
  by code_simp

text \<open>
  C9 as stated fails for the business value estimator: on the example context it
  returns a revenue bracket, which is no label of the three-tier set.
\<close>

theorem estimators_tier_counterexample:
  "calculate_business_value example_context = ''$50K-100K monthly revenue potential'' \<and>
   \<not> tier_label (calculate_business_value example_context)"
  by (simp add: business_value_example tier_label_def)

subsection \<open>The plan of an executed task\<close>

lemma execute_task_plan_focus:
  "fst (execute_task s tid now) = Returned (Results_reply r) \<Longrightarrow>
   plan_focus r = ''Execution Optimization''"
  by (auto simp: execute_task_def Let_def execute_plan_def generate_execution_plan_def
           split: option.splits if_splits)

text \<open>
  C1 against the code. The example task has volume \<^verbatim>\<open>Volume_1\<close> and section
  \<^verbatim>\<open>1.0\<close>, for which the selection by volume and section (the first definition of
  \<^verbatim>\<open>_generate_execution_plan\<close>) gives the plan \<^verbatim>\<open>7-Layer Reality Architecture\<close>.
  \<^verbatim>\<open>execute_task\<close> reaches the second definition of that name and returns the plan
  for execution playbooks, \<^verbatim>\<open>Execution Optimization\<close>.
\<close>

theorem execute_task_runs_playbook_plan:
  "target_volume example_context = ''Volume_1'' \<and>
   target_section example_context = ''1.0'' \<and>
   focus (generate_execution_plan_line173 example_context example_outputs) =
     ''7-Layer Reality Architecture'' \<and>
   fst (execute_task st_assigned example_task_id clock_c) =
     Returned (Results_reply
       (execute_plan (generate_execution_plan example_context example_outputs)
          example_context)) \<and>
   plan_focus (execute_plan (generate_execution_plan example_context example_outputs)
       example_context) = ''Execution Optimization''"
proof -
  have a: "target_volume example_context = ''Volume_1'' \<and>
      target_section example_context = ''1.0''"
    by (simp add: example_context_def)
  have b: "focus (generate_execution_plan_line173 example_context example_outputs) =
      ''7-Layer Reality Architecture''"
    by (simp add: generate_execution_plan_line173_def a generate_foundational_plan_def
          foundational_plans_def)
  have c: "fst (execute_task st_assigned example_task_id clock_c) =
     Returned (Results_reply
       (execute_plan (generate_execution_plan example_context example_outputs)
          example_context))"
    by (simp add: ex_defs)
  have d: "plan_focus (execute_plan (generate_execution_plan example_context example_outputs)
       example_context) = ''Execution Optimization''"
    by (simp add: execute_plan_def generate_execution_plan_def)
  from a b c d show ?thesis by simp
qed

end
